theory Spec2Isabelle
  imports Complex_Main
begin

section \<open>Timeline-Box: the Power BI visual of src/visual.ts\<close>

text \<open>
  The visual converts the rows of a host data view into timeline records, keeps the first
  100, narrows them to a window of years around the current year, resolves the domain of
  the time axis, and places one marker per record above or below the axis. The theory
  embeds these steps as functions and states the properties of the specification on them.
\<close>

subsection \<open>The alternating layout of \<open>renderLine\<close>\<close>

text \<open>
  \<open>this.margin.top\<close> is 50. \<open>yScale\<close> is the d3 linear scale of \<open>renderXandYAxis\<close>:
  \<open>d3.scaleLinear().domain([-100, 100]).range([gHeight, this.margin.top])\<close>, the linear
  interpolation between the two ends of the range.
\<close>

definition margin_top :: real where
  "margin_top = 50"

definition yScale :: "real \<Rightarrow> real \<Rightarrow> real" where
  "yScale gHeight v = gHeight + (v - (- 100)) / (100 - (- 100)) * (margin_top - gHeight)"

text \<open>
  \<open>Math.ceil(i / 2)\<close> for an index \<open>i\<close>: a natural number, \<open>(i + 1) div 2\<close>
  (lemma \<open>ceil_half_real\<close> ties it to the ceiling of the real quotient).
\<close>

definition ceil_half :: "nat \<Rightarrow> nat" where
  "ceil_half i = (i + 1) div 2"

text \<open>
  The callback of \<open>.attr("y", (d, i) => ...)\<close>. The record \<open>d\<close> is not read.
\<close>

definition renderLine_y :: "real \<Rightarrow> nat \<Rightarrow> real" where
  "renderLine_y gHeight i =
     (if i mod 2 = 0 then yScale gHeight (- 27)
      else (let count = ceil_half i in
            if count mod 2 = 0 then yScale gHeight 70 else yScale gHeight 30))"

text \<open>
  The callback of \<open>.attr("height", (d, i) => ...)\<close>. In the first branch \<open>i\<close> is even,
  so the quotient \<open>i / 2\<close> of the source is the whole number \<open>i div 2\<close>.
\<close>

definition renderLine_height :: "real \<Rightarrow> nat \<Rightarrow> real" where
  "renderLine_height gHeight i =
     (if i mod 2 = 0 then
        (let count = i div 2 in
         if count mod 2 = 0 then gHeight - yScale gHeight (- 45)
         else gHeight - yScale gHeight (- 85))
      else
        (let count = ceil_half i in
         if count mod 2 = 0 then gHeight - yScale gHeight (- 45)
         else gHeight - yScale gHeight (- 85)))"

subsection \<open>JavaScript numbers and dates\<close>

text \<open>
  The numbers the visual compares and adds are whole (years, months, days, milliseconds)
  or one of the three special values of an IEEE double. \<open>a <= b\<close> and \<open>a >= b\<close> are false
  as soon as one side is \<open>NaN\<close>.
\<close>

datatype number = NaN | NegInf | Fin int | PosInf

fun js_le :: "number \<Rightarrow> number \<Rightarrow> bool" where
  "js_le NaN b = False"
| "js_le a NaN = False"
| "js_le NegInf b = True"
| "js_le a PosInf = True"
| "js_le (Fin a) (Fin b) = (a \<le> b)"
| "js_le PosInf b = False"
| "js_le a NegInf = False"

definition js_ge :: "number \<Rightarrow> number \<Rightarrow> bool" where
  "js_ge a b = js_le b a"

text \<open>\<open>x + k\<close> for a whole constant \<open>k\<close>.\<close>

fun js_plus :: "number \<Rightarrow> int \<Rightarrow> number" where
  "js_plus (Fin a) k = Fin (a + k)"
| "js_plus x k = x"

text \<open>
  \<open>Math.min\<close> and \<open>Math.max\<close> over a list of arguments: \<open>NaN\<close> if any argument is
  \<open>NaN\<close>, and \<open>+Infinity\<close> respectively \<open>-Infinity\<close> for no argument.
\<close>

fun min2 :: "number \<Rightarrow> number \<Rightarrow> number" where
  "min2 NaN b = NaN"
| "min2 a NaN = NaN"
| "min2 a b = (if js_le a b then a else b)"

fun max2 :: "number \<Rightarrow> number \<Rightarrow> number" where
  "max2 NaN b = NaN"
| "max2 a NaN = NaN"
| "max2 a b = (if js_le a b then b else a)"

primrec Math_min :: "number list \<Rightarrow> number" where
  "Math_min [] = PosInf"
| "Math_min (x # xs) = min2 x (Math_min xs)"

primrec Math_max :: "number list \<Rightarrow> number" where
  "Math_max [] = NegInf"
| "Math_max (x # xs) = max2 x (Math_max xs)"

text \<open>
  The day and year arithmetic of ECMAScript (ECMA-262, Date objects): time values are
  milliseconds since the epoch, a day has \<open>msPerDay\<close> of them.
\<close>

definition msPerDay :: int where
  "msPerDay = 86400000"

definition Day :: "int \<Rightarrow> int" where
  "Day t = t div msPerDay"

definition DaysInYear :: "int \<Rightarrow> int" where
  "DaysInYear y =
     (if y mod 4 \<noteq> 0 then 365
      else if y mod 100 \<noteq> 0 then 366
      else if y mod 400 \<noteq> 0 then 365
      else 366)"

definition DayFromYear :: "int \<Rightarrow> int" where
  "DayFromYear y =
     365 * (y - 1970) + (y - 1969) div 4 - (y - 1901) div 100 + (y - 1601) div 400"

definition TimeFromYear :: "int \<Rightarrow> int" where
  "TimeFromYear y = msPerDay * DayFromYear y"

text \<open>
  \<open>YearFromTime t\<close> is the largest year \<open>y\<close> with \<open>TimeFromYear y \<le> t\<close>. It is computed
  by a search upwards from a year that is not after the day: going \<open>k\<close> years forward
  from 1970 takes at most \<open>366 * k\<close> days, going back takes at least \<open>365\<close> days a year.
  The search is \<open>year_from_day\<close>; its termination needs that a year has a positive
  number of days, which the two lemmas before it establish.
\<close>

lemma div_succ:
  fixes a m :: int
  assumes "0 < m"
  shows "(a + 1) div m = a div m + (if m dvd (a + 1) then 1 else 0)"
proof -
  define q where "q = a div m"
  define r where "r = a mod m"
  have a: "a = m * q + r" and r0: "0 \<le> r" and rm: "r < m"
    using assms by (simp_all add: q_def r_def)
  show ?thesis
  proof (cases "r + 1 = m")
    case True
    then have eq: "a + 1 = m * (q + 1) + 0"
      using a by (simp add: algebra_simps)
    have "(a + 1) div m = q + 1"
      using int_div_pos_eq [OF eq] assms by simp
    moreover have "m dvd (a + 1)"
      using eq by simp
    ultimately show ?thesis by (simp add: q_def)
  next
    case False
    then have lt: "r + 1 < m" using rm by simp
    have eq: "a + 1 = m * q + (r + 1)"
      using a by simp
    have d: "(a + 1) div m = q"
      using int_div_pos_eq [OF eq] r0 lt by simp
    have "(a + 1) mod m = r + 1"
      using int_mod_pos_eq [OF eq] r0 lt by simp
    then have "\<not> m dvd (a + 1)"
      using r0 by (simp add: dvd_eq_mod_eq_0)
    with d show ?thesis by (simp add: q_def)
  qed
qed

lemma DayFromYear_succ: "DayFromYear (y + 1) = DayFromYear y + DaysInYear y"
proof -
  have s4: "y - 1969 + 1 = y + (- 492) * 4" and s100: "y - 1901 + 1 = y + (- 19) * 100"
    and s400: "y - 1601 + 1 = y + (- 4) * 400"
    by simp_all
  have d4: "(y + 1 - 1969) div 4 = (y - 1969) div 4 + (if 4 dvd y then 1 else 0)"
    using div_succ [of 4 "y - 1969"] unfolding s4 dvd_add_times_triv_right_iff
    by (simp add: algebra_simps)
  have d100: "(y + 1 - 1901) div 100 = (y - 1901) div 100 + (if 100 dvd y then 1 else 0)"
    using div_succ [of 100 "y - 1901"] unfolding s100 dvd_add_times_triv_right_iff
    by (simp add: algebra_simps)
  have d400: "(y + 1 - 1601) div 400 = (y - 1601) div 400 + (if 400 dvd y then 1 else 0)"
    using div_succ [of 400 "y - 1601"] unfolding s400 dvd_add_times_triv_right_iff
    by (simp add: algebra_simps)
  have i1: "4 dvd y" if "100 dvd y"
    using dvd_trans [of 4 100 y] that by simp
  have i2: "100 dvd y" if "400 dvd y"
    using dvd_trans [of 100 400 y] that by simp
  show ?thesis
    unfolding DayFromYear_def DaysInYear_def d4 d100 d400
    using i1 i2 by (auto simp: mod_eq_0_iff_dvd)
qed

lemma DaysInYear_bounds: "365 \<le> DaysInYear y \<and> DaysInYear y \<le> 366"
  by (simp add: DaysInYear_def)

lemma DayFromYear_strict: "DayFromYear y < DayFromYear (y + 1)"
  using DaysInYear_bounds [of y] by (simp add: DayFromYear_succ)

function year_from_day :: "int \<Rightarrow> int \<Rightarrow> int" where
  "year_from_day d y = (if DayFromYear (y + 1) \<le> d then year_from_day d (y + 1) else y)"
  by pat_completeness auto
termination
proof (relation "measure (\<lambda>(d, y). nat (d + 1 - DayFromYear (y + 1)))")
  show "wf (measure (\<lambda>(d, y). nat (d + 1 - DayFromYear (y + 1))))" by simp
next
  fix d y :: int
  assume "DayFromYear (y + 1) \<le> d"
  then show "((d, y + 1), (d, y)) \<in> measure (\<lambda>(d, y). nat (d + 1 - DayFromYear (y + 1)))"
    using DayFromYear_strict [of "y + 1"] by simp
qed

declare year_from_day.simps [simp del]

definition YearFromTime :: "int \<Rightarrow> int" where
  "YearFromTime t =
     (let d = Day t in
      year_from_day d (1970 + (if 0 \<le> d then d div 366 else d div 365)))"

definition InLeapYear :: "int \<Rightarrow> int" where
  "InLeapYear t = (if DaysInYear (YearFromTime t) = 366 then 1 else 0)"

definition DayWithinYear :: "int \<Rightarrow> int" where
  "DayWithinYear t = Day t - DayFromYear (YearFromTime t)"

definition MonthFromTime :: "int \<Rightarrow> int" where
  "MonthFromTime t =
     (let d = DayWithinYear t; leap = InLeapYear t in
      if d < 31 then 0
      else if d < 59 + leap then 1
      else if d < 90 + leap then 2
      else if d < 120 + leap then 3
      else if d < 151 + leap then 4
      else if d < 181 + leap then 5
      else if d < 212 + leap then 6
      else if d < 243 + leap then 7
      else if d < 273 + leap then 8
      else if d < 304 + leap then 9
      else if d < 334 + leap then 10
      else 11)"

definition DateFromTime :: "int \<Rightarrow> int" where
  "DateFromTime t =
     (let d = DayWithinYear t; leap = InLeapYear t; m = MonthFromTime t in
      if m = 0 then d + 1
      else if m = 1 then d - 30
      else if m = 2 then d - 58 - leap
      else if m = 3 then d - 89 - leap
      else if m = 4 then d - 119 - leap
      else if m = 5 then d - 150 - leap
      else if m = 6 then d - 180 - leap
      else if m = 7 then d - 211 - leap
      else if m = 8 then d - 242 - leap
      else if m = 9 then d - 272 - leap
      else if m = 10 then d - 303 - leap
      else d - 333 - leap)"

text \<open>
  A \<open>Date\<close> object holds a time value: \<open>NaN\<close> (an "Invalid Date") or a whole number of
  milliseconds of magnitude at most \<open>8.64e15\<close>. \<open>new Date(value)\<close> clips its argument
  (\<open>TimeClip\<close>). The host's local time is modelled as UTC shifted by a constant offset
  \<open>tza\<close> in milliseconds (no daylight saving changes).
\<close>

datatype JSDate = Invalid_Date | Valid_Date int

definition maxTime :: int where
  "maxTime = 8640000000000000"

fun TimeClip :: "number \<Rightarrow> JSDate" where
  "TimeClip (Fin t) = (if maxTime < \<bar>t\<bar> then Invalid_Date else Valid_Date t)"
| "TimeClip x = Invalid_Date"

fun getTime :: "JSDate \<Rightarrow> number" where
  "getTime Invalid_Date = NaN"
| "getTime (Valid_Date t) = Fin t"

fun getFullYear :: "int \<Rightarrow> JSDate \<Rightarrow> number" where
  "getFullYear tza Invalid_Date = NaN"
| "getFullYear tza (Valid_Date t) = Fin (YearFromTime (t + tza))"

fun getMonth :: "int \<Rightarrow> JSDate \<Rightarrow> number" where
  "getMonth tza Invalid_Date = NaN"
| "getMonth tza (Valid_Date t) = Fin (MonthFromTime (t + tza))"

fun getDate :: "int \<Rightarrow> JSDate \<Rightarrow> number" where
  "getDate tza Invalid_Date = NaN"
| "getDate tza (Valid_Date t) = Fin (DateFromTime (t + tza))"

text \<open>
  \<open>new Date(year, 0, 1)\<close>: midnight local time on the first of January. The constructor
  reads a year from 0 to 99 as \<open>1900 + year\<close>; a year that is not finite gives an Invalid
  Date, and so does a result outside the range of time values.
\<close>

fun new_Date_y_0_1 :: "int \<Rightarrow> number \<Rightarrow> JSDate" where
  "new_Date_y_0_1 tza (Fin y) =
     (let yr = (if 0 \<le> y \<and> y \<le> 99 then 1900 + y else y)
      in TimeClip (Fin (TimeFromYear yr - tza)))"
| "new_Date_y_0_1 tza x = Invalid_Date"

text \<open>
  \<open>Number.prototype.toString\<close> for the numbers above (decimal digits, for whole numbers
  below \<open>1e21\<close> in magnitude).
\<close>

fun digits :: "nat \<Rightarrow> string" where
  "digits n = (if n < 10 then [''0123456789'' ! n]
               else digits (n div 10) @ [''0123456789'' ! (n mod 10)])"

declare digits.simps [simp del]

fun Number_toString :: "number \<Rightarrow> string" where
  "Number_toString NaN = ''NaN''"
| "Number_toString PosInf = ''Infinity''"
| "Number_toString NegInf = ''-Infinity''"
| "Number_toString (Fin i) = (if i < 0 then ''-'' @ digits (nat (- i)) else digits (nat i))"

subsection \<open>Errors\<close>

text \<open>
  The only exception the modelled code raises is the \<open>TypeError\<close> of reading a property
  of \<open>null\<close> or \<open>undefined\<close>; it carries the name of the property read.
\<close>

datatype error = TypeError string

definition bind :: "error + 'a \<Rightarrow> ('a \<Rightarrow> error + 'b) \<Rightarrow> error + 'b" where
  "bind m f = (case m of Inl e \<Rightarrow> Inl e | Inr a \<Rightarrow> f a)"

subsection \<open>The row converter \<open>CONVERTER\<close>\<close>

text \<open>
  A cell \<open>row[i]\<close> of the host's table is \<open>undefined\<close> (an index outside the row, such as
  the \<open>-1\<close> of a role that no column carries), \<open>null\<close>, a string, or another primitive
  value or object, given by its truthiness and the text its \<open>toString()\<close> returns.
\<close>

datatype cell = Undefined | Null | Str string | Val bool string

fun truthy :: "cell \<Rightarrow> bool" where
  "truthy Undefined = False"
| "truthy Null = False"
| "truthy (Str s) = (s \<noteq> [])"
| "truthy (Val b s) = b"

fun toString :: "cell \<Rightarrow> error + string" where
  "toString Undefined = Inl (TypeError ''toString'')"
| "toString Null = Inl (TypeError ''toString'')"
| "toString (Str s) = Inr s"
| "toString (Val b s) = Inr s"

definition row_at :: "cell list \<Rightarrow> int \<Rightarrow> cell" where
  "row_at row i = (if 0 \<le> i \<and> i < int (length row) then row ! nat i else Undefined)"

text \<open>
  A column carries the role names that are own properties of its \<open>roles\<close> object; the
  table is \<open>dataView.table\<close>.
\<close>

record column =
  roles :: "string list"

record table =
  columns :: "column list"
  rows :: "cell list list"

definition hasOwnProperty :: "column \<Rightarrow> string \<Rightarrow> bool" where
  "hasOwnProperty c r = (r \<in> set (roles c))"

record role_indices =
  companyIndex :: int
  typeIndex :: int
  descIndex :: int
  dateIndex :: int
  linkIndex :: int
  headerImageIndex :: int
  footerImageIndex :: int

definition no_indices :: role_indices where
  "no_indices = \<lparr>companyIndex = - 1, typeIndex = - 1, descIndex = - 1, dateIndex = - 1,
     linkIndex = - 1, headerImageIndex = - 1, footerImageIndex = - 1\<rparr>"

text \<open>The body of the loop over the columns, at the column of index \<open>ti\<close>.\<close>

definition scan_column :: "nat \<Rightarrow> column \<Rightarrow> role_indices \<Rightarrow> role_indices" where
  "scan_column ti c idx =
     (if hasOwnProperty c ''Company'' then idx\<lparr>companyIndex := int ti\<rparr>
      else if hasOwnProperty c ''Type'' then idx\<lparr>typeIndex := int ti\<rparr>
      else if hasOwnProperty c ''Description'' then idx\<lparr>descIndex := int ti\<rparr>
      else if hasOwnProperty c ''Date'' then idx\<lparr>dateIndex := int ti\<rparr>
      else if hasOwnProperty c ''DocumentLink'' then idx\<lparr>linkIndex := int ti\<rparr>
      else if hasOwnProperty c ''HeaderImage'' then idx\<lparr>headerImageIndex := int ti\<rparr>
      else if hasOwnProperty c ''FooterImage'' then idx\<lparr>footerImageIndex := int ti\<rparr>
      else idx)"

fun scan_columns :: "nat \<Rightarrow> column list \<Rightarrow> role_indices \<Rightarrow> role_indices" where
  "scan_columns ti [] idx = idx"
| "scan_columns ti (c # cs) idx = scan_columns (Suc ti) cs (scan_column ti c idx)"

record TimelineData =
  Company :: string
  Type :: string
  Description :: "string option"
  Date :: "JSDate option"
  DocumentLink :: "string option"
  HeaderImage :: "string option"
  FooterImage :: "string option"
  selectionId :: nat

text \<open>\<open>c ? c.toString() : null\<close>\<close>

definition toString_or_null :: "cell \<Rightarrow> error + string option" where
  "toString_or_null c = (if truthy c then bind (toString c) (\<lambda>s. Inr (Some s)) else Inr None)"

text \<open>
  One turn of the loop over the rows. \<open>Date.parse\<close> is the host's parser, a parameter:
  it returns a time value or \<open>NaN\<close>. The selection id the host builds for the row is
  modelled by the row's index. The fields are evaluated in the order of the object
  literal, \<open>Company\<close> first and without a test of the cell.
\<close>

definition convert_row :: "(string \<Rightarrow> number) \<Rightarrow> role_indices \<Rightarrow> nat \<Rightarrow> cell list \<Rightarrow> error + TimelineData" where
  "convert_row Date_parse idx i row =
     bind (toString (row_at row (companyIndex idx))) (\<lambda>company.
     bind (if truthy (row_at row (typeIndex idx)) then toString (row_at row (typeIndex idx))
           else Inr []) (\<lambda>ty.
     bind (toString_or_null (row_at row (descIndex idx))) (\<lambda>description.
     bind (if truthy (row_at row (dateIndex idx))
           then bind (toString (row_at row (dateIndex idx)))
                  (\<lambda>s. Inr (Some (TimeClip (Date_parse s))))
           else Inr None) (\<lambda>date.
     bind (toString_or_null (row_at row (linkIndex idx))) (\<lambda>link.
     bind (toString_or_null (row_at row (headerImageIndex idx))) (\<lambda>headerImage.
     bind (toString_or_null (row_at row (footerImageIndex idx))) (\<lambda>footerImage.
       Inr \<lparr>Company = company, Type = ty, Description = description, Date = date,
            DocumentLink = link, HeaderImage = headerImage, FooterImage = footerImage,
            selectionId = i\<rparr>)))))))"

fun convert_rows :: "(string \<Rightarrow> number) \<Rightarrow> role_indices \<Rightarrow> nat \<Rightarrow> cell list list \<Rightarrow> error + TimelineData list" where
  "convert_rows Date_parse idx i [] = Inr []"
| "convert_rows Date_parse idx i (row # rest) =
     bind (convert_row Date_parse idx i row) (\<lambda>dp.
     bind (convert_rows Date_parse idx (Suc i) rest) (\<lambda>dps. Inr (dp # dps)))"

definition CONVERTER :: "(string \<Rightarrow> number) \<Rightarrow> table \<Rightarrow> error + TimelineData list" where
  "CONVERTER Date_parse tableView =
     convert_rows Date_parse (scan_columns 0 (columns tableView) no_indices) 0 (rows tableView)"

text \<open>
  For the statements about the scan: the recognised role names, the branch of the
  conditional chain that a column selects (the first role of the chain that it carries),
  and the index variable that belongs to a role name.
\<close>

definition role_names :: "string list" where
  "role_names = [''Company'', ''Type'', ''Description'', ''Date'', ''DocumentLink'',
     ''HeaderImage'', ''FooterImage'']"

definition selected_role :: "column \<Rightarrow> string option" where
  "selected_role c = find (hasOwnProperty c) role_names"

definition index_of_role :: "role_indices \<Rightarrow> string \<Rightarrow> int" where
  "index_of_role idx r =
     (if r = ''Company'' then companyIndex idx
      else if r = ''Type'' then typeIndex idx
      else if r = ''Description'' then descIndex idx
      else if r = ''Date'' then dateIndex idx
      else if r = ''DocumentLink'' then linkIndex idx
      else if r = ''HeaderImage'' then headerImageIndex idx
      else if r = ''FooterImage'' then footerImageIndex idx
      else - 1)"

text \<open>
  For the statements about the rows: the text of a cell that has one, the field a
  tested cell gives, and the record a row is expected to give.
\<close>

definition text_of :: "cell \<Rightarrow> string" where
  "text_of c = (case c of Str s \<Rightarrow> s | Val b s \<Rightarrow> s | _ \<Rightarrow> [])"

definition text_or_null :: "cell \<Rightarrow> string option" where
  "text_or_null c = (if truthy c then Some (text_of c) else None)"

definition emitted_record :: "(string \<Rightarrow> number) \<Rightarrow> role_indices \<Rightarrow> nat \<Rightarrow> cell list \<Rightarrow> TimelineData" where
  "emitted_record Date_parse idx i row =
     \<lparr>Company = text_of (row_at row (companyIndex idx)),
      Type = (if truthy (row_at row (typeIndex idx)) then text_of (row_at row (typeIndex idx))
              else []),
      Description = text_or_null (row_at row (descIndex idx)),
      Date = (if truthy (row_at row (dateIndex idx))
              then Some (TimeClip (Date_parse (text_of (row_at row (dateIndex idx)))))
              else None),
      DocumentLink = text_or_null (row_at row (linkIndex idx)),
      HeaderImage = text_or_null (row_at row (headerImageIndex idx)),
      FooterImage = text_or_null (row_at row (footerImageIndex idx)),
      selectionId = i\<rparr>"

subsection \<open>The window of years and the axis domain (\<open>update\<close>)\<close>

text \<open>
  The settings the update reads; they come from the format pane (the settings class is
  not part of the source file).
\<close>

record Settings =
  layout :: string
  PreviousYear :: int
  FutureYear :: int

text \<open>
  \<open>data.map((d) => { if (p(d.Date.getFullYear())) { return d; } }).filter(e => e)\<close>:
  the callback reads \<open>getFullYear\<close> of every record's \<open>Date\<close>, in order, and raises on a
  \<open>null\<close> one; the records it returns are kept.
\<close>

fun keep_years :: "int \<Rightarrow> (number \<Rightarrow> bool) \<Rightarrow> TimelineData list \<Rightarrow> error + TimelineData list" where
  "keep_years tza p [] = Inr []"
| "keep_years tza p (d # ds) =
     (case Date d of
        None \<Rightarrow> Inl (TypeError ''getFullYear'')
      | Some dt \<Rightarrow>
          bind (keep_years tza p ds) (\<lambda>kept.
            Inr (if p (getFullYear tza dt) then d # kept else kept)))"

text \<open>
  The body of \<open>if (timelineData.length > 0)\<close>: \<open>now\<close> is the time value of
  \<open>currentDate = new Date()\<close>. The result is \<open>timelineLocalData\<close> with \<open>minDate\<close> and
  \<open>maxDate\<close>.
\<close>

definition window_filter :: "int \<Rightarrow> int \<Rightarrow> Settings \<Rightarrow> TimelineData list \<Rightarrow> error + (TimelineData list \<times> JSDate \<times> JSDate)" where
  "window_filter tza now st timelineData =
     (let currentYear = YearFromTime (now + tza);
          minDate = new_Date_y_0_1 tza (Fin (currentYear - PreviousYear st)) in
      bind (keep_years tza (\<lambda>y. js_ge y (getFullYear tza minDate)) timelineData) (\<lambda>local1.
      let maxDate = new_Date_y_0_1 tza (Fin (currentYear + FutureYear st)) in
      bind (keep_years tza (\<lambda>y. js_le y (getFullYear tza maxDate)) local1) (\<lambda>local2.
        Inr (local2, minDate, maxDate))))"

text \<open>
  The two years the passes compare with, \<open>minDate.getFullYear()\<close> and
  \<open>maxDate.getFullYear()\<close> of the dates the code constructs, and the test the two passes
  together apply to a record that has a date.
\<close>

definition minDate_getFullYear :: "int \<Rightarrow> int \<Rightarrow> Settings \<Rightarrow> number" where
  "minDate_getFullYear tza now st =
     getFullYear tza (new_Date_y_0_1 tza (Fin (YearFromTime (now + tza) - PreviousYear st)))"

definition maxDate_getFullYear :: "int \<Rightarrow> int \<Rightarrow> Settings \<Rightarrow> number" where
  "maxDate_getFullYear tza now st =
     getFullYear tza (new_Date_y_0_1 tza (Fin (YearFromTime (now + tza) + FutureYear st)))"

definition in_window :: "int \<Rightarrow> int \<Rightarrow> Settings \<Rightarrow> TimelineData \<Rightarrow> bool" where
  "in_window tza now st d =
     (case Date d of
        None \<Rightarrow> False
      | Some dt \<Rightarrow> js_ge (getFullYear tza dt) (minDate_getFullYear tza now st) \<and>
                   js_le (getFullYear tza dt) (maxDate_getFullYear tza now st))"

text \<open>
  The window as the specification words it: the records whose date's year is at least
  the calendar year \<open>currentYear - previousYears\<close> and at most the calendar year
  \<open>currentYear + futureYears\<close>.
\<close>

definition in_year_window :: "int \<Rightarrow> int \<Rightarrow> Settings \<Rightarrow> TimelineData \<Rightarrow> bool" where
  "in_year_window tza now st d =
     (case Date d of
        None \<Rightarrow> False
      | Some dt \<Rightarrow>
          js_ge (getFullYear tza dt) (Fin (YearFromTime (now + tza) - PreviousYear st)) \<and>
          js_le (getFullYear tza dt) (Fin (YearFromTime (now + tza) + FutureYear st)))"

text \<open>\<open>Math.min.apply(null, timelineData.map(d => d.Date))\<close> turns \<open>null\<close> into 0.\<close>

fun ToNumber_Date :: "JSDate option \<Rightarrow> number" where
  "ToNumber_Date None = Fin 0"
| "ToNumber_Date (Some d) = getTime d"

definition data_extent :: "int \<Rightarrow> TimelineData list \<Rightarrow> JSDate \<times> JSDate" where
  "data_extent tza timelineData =
     (let minDate = TimeClip (Math_min (map (\<lambda>d. ToNumber_Date (Date d)) timelineData));
          maxDate = TimeClip (Math_max (map (\<lambda>d. ToNumber_Date (Date d)) timelineData))
      in (new_Date_y_0_1 tza (getFullYear tza minDate),
          new_Date_y_0_1 tza (js_plus (getFullYear tza maxDate) 1)))"

text \<open>
  The active records and the axis domain that \<open>update\<close> hands to the render steps: the
  windowed records when there are any, else all records with the extent of the data.
\<close>

definition resolve_window :: "int \<Rightarrow> int \<Rightarrow> Settings \<Rightarrow> TimelineData list \<Rightarrow> error + (TimelineData list \<times> JSDate \<times> JSDate)" where
  "resolve_window tza now st timelineData =
     (if length timelineData > 0 then
        bind (window_filter tza now st timelineData) (\<lambda>(timelineLocalData, minDate, maxDate).
          if length timelineLocalData > 0 then Inr (timelineLocalData, minDate, maxDate)
          else Inr (timelineData, data_extent tza timelineData))
      else Inr (timelineData, data_extent tza timelineData))"

subsection \<open>Header, footer and axis ticks\<close>

definition lower_char :: "char \<Rightarrow> char" where
  "lower_char c =
     (case map_of (zip ''ABCDEFGHIJKLMNOPQRSTUVWXYZ'' ''abcdefghijklmnopqrstuvwxyz'') c of
        Some l \<Rightarrow> l
      | None \<Rightarrow> c)"

definition toLowerCase :: "string \<Rightarrow> string" where
  "toLowerCase s = map lower_char s"

text \<open>
  The image element \<open>renderHeaderAndFooter\<close> appends, with its \<open>src\<close>. \<open>validDataUrl\<close> is
  the library's test, a parameter. \<open>let [timeline] = timelineData\<close> leaves \<open>timeline\<close>
  undefined for an empty array, and reading its image then raises.
\<close>

datatype banner = No_Image | Header_Image "string option" | Footer_Image "string option"

definition renderHeaderAndFooter :: "(string option \<Rightarrow> bool) \<Rightarrow> Settings \<Rightarrow> TimelineData list \<Rightarrow> error + banner" where
  "renderHeaderAndFooter validDataUrl st timelineData =
     (let timeline = (case timelineData of [] \<Rightarrow> None | t # rest \<Rightarrow> Some t) in
      if toLowerCase (layout st) = ''header'' then
        (case timeline of
           None \<Rightarrow> Inl (TypeError ''HeaderImage'')
         | Some t \<Rightarrow> Inr (Header_Image
             (if validDataUrl (HeaderImage t) then HeaderImage t else Some [])))
      else if toLowerCase (layout st) = ''footer'' then
        (case timeline of
           None \<Rightarrow> Inl (TypeError ''FooterImage'')
         | Some t \<Rightarrow> Inr (Footer_Image
             (if validDataUrl (FooterImage t) then FooterImage t else Some [])))
      else Inr No_Image)"

text \<open>
  \<open>diff_years(dt2, dt1)\<close>, on exact quotients: the difference of the time values in
  seconds, then in days, then in years of 365.25 days, rounded by \<open>Math.round\<close> (to the
  nearest whole number, a half upwards), then its absolute value.
\<close>

definition Math_round :: "real \<Rightarrow> int" where
  "Math_round x = \<lfloor>x + 1 / 2\<rfloor>"

fun diff_years :: "JSDate \<Rightarrow> JSDate \<Rightarrow> number" where
  "diff_years (Valid_Date t2) (Valid_Date t1) =
     Fin \<bar>Math_round (real_of_int (t2 - t1) / 1000 / (60 * 60 * 24) / 365.25)\<bar>"
| "diff_years dt2 dt1 = NaN"

text \<open>
  The measure of the specification for the tick granularity: the absolute difference of
  the two dates in days, divided by 365.25 and rounded to the nearest whole number.
\<close>

fun rounded_year_span :: "JSDate \<Rightarrow> JSDate \<Rightarrow> number" where
  "rounded_year_span (Valid_Date a) (Valid_Date b) =
     Fin (round (\<bar>real_of_int (b - a)\<bar> / real_of_int msPerDay / 365.25))"
| "rounded_year_span minDate maxDate = NaN"

datatype ticks = Monthly | Yearly

definition axis_ticks :: "JSDate \<Rightarrow> JSDate \<Rightarrow> ticks" where
  "axis_ticks minDate maxDate =
     (if js_le (diff_years minDate maxDate) (Fin 1) then Monthly else Yearly)"

text \<open>
  The update cycle from the conversion to the axis: what reaches the layout, or the
  exception that ends the cycle.
\<close>

record frame =
  active :: "TimelineData list"
  axisDomain :: "JSDate \<times> JSDate"
  bannerImage :: banner
  tickMode :: ticks

definition render :: "(string option \<Rightarrow> bool) \<Rightarrow> int \<Rightarrow> int \<Rightarrow> Settings \<Rightarrow> TimelineData list \<Rightarrow> error + frame" where
  "render validDataUrl tza now st timelineData =
     bind (resolve_window tza now st timelineData) (\<lambda>(data, minDate, maxDate).
     bind (renderHeaderAndFooter validDataUrl st data) (\<lambda>img.
       Inr \<lparr>active = data, axisDomain = (minDate, maxDate), bannerImage = img,
            tickMode = axis_ticks minDate maxDate\<rparr>))"

definition update :: "(string \<Rightarrow> number) \<Rightarrow> (string option \<Rightarrow> bool) \<Rightarrow> int \<Rightarrow> int \<Rightarrow> Settings \<Rightarrow> table \<Rightarrow> error + frame" where
  "update Date_parse validDataUrl tza now st tableView =
     bind (CONVERTER Date_parse tableView) (\<lambda>converted.
       render validDataUrl tza now st (take 100 converted))"

subsection \<open>The tooltip of \<open>renderBox\<close>\<close>

text \<open>
  The \<open>mousemove\<close> handler builds the tooltip's HTML. \<open>sanitizeHtml\<close> is the library's
  function, a parameter. In the third branch the source has \<open>'<div>' + + sanitizeHtml(...)\<close>:
  the second \<open>+\<close> is the unary plus, which turns the sanitized text into a number before
  it is appended; \<open>numeric_text s\<close> stands for the text of that number, \<open>String(+s)\<close>
  (it is \<open>NaN\<close> for every text that is not a numeric literal).
\<close>

definition tooltip_html :: "(string option \<Rightarrow> string) \<Rightarrow> (string \<Rightarrow> string) \<Rightarrow> int \<Rightarrow> TimelineData \<Rightarrow> error + string" where
  "tooltip_html sanitizeHtml numeric_text tza d =
     (case Date d of
        None \<Rightarrow> Inl (TypeError ''getMonth'')
      | Some dt \<Rightarrow>
          (let dateHtml = ''<div>'' @ Number_toString (js_plus (getMonth tza dt) 1) @ ''/''
                 @ Number_toString (getDate tza dt) @ ''/''
                 @ Number_toString (getFullYear tza dt) @ ''</div>'' in
           Inr (if Type d = ''Regulatory'' then
                  dateHtml @ ''<div>'' @ sanitizeHtml (Some (Company d)) @ ''</div>''
                    @ ''<div>'' @ sanitizeHtml (Description d) @ ''</div>''
                else if Type d = ''Commercial'' then
                  dateHtml @ ''<div>'' @ sanitizeHtml (Some (Company d)) @ ''</div>''
                    @ ''<div>'' @ sanitizeHtml (Description d) @ ''</div>''
                else if Type d = ''Clinical Trials'' then
                  dateHtml @ ''<div>'' @ sanitizeHtml (Some (Company d)) @ ''</div>''
                    @ ''<div>'' @ numeric_text (sanitizeHtml (Description d)) @ ''</div>''
                else [])))"

section \<open>Properties\<close>

subsection \<open>Layout\<close>

lemma ceil_half_real: "\<lceil>real i / 2\<rceil> = int (ceil_half i)"
  unfolding ceil_half_def by linarith

lemma floor_half_real: "\<lfloor>real i / 2\<rfloor> = int (i div 2)"
  by linarith

lemma yScale_inj: "gHeight \<noteq> margin_top \<Longrightarrow> yScale gHeight a = yScale gHeight b \<Longrightarrow> a = b"
  by (simp add: yScale_def)

lemma ceil_half_add4: "ceil_half (i + 4) = ceil_half i + 2"
  by (simp add: ceil_half_def)

lemma renderLine_y_even_odd:
  "renderLine_y gHeight i =
     (if even i then yScale gHeight (- 27)
      else if even (ceil_half i) then yScale gHeight 70 else yScale gHeight 30)"
  by (simp add: renderLine_y_def Let_def even_iff_mod_2_eq_zero)

lemma renderLine_height_even_odd:
  "renderLine_height gHeight i =
     gHeight - yScale gHeight
       (if even i then (if even (i div 2) then - 45 else - 85)
        else (if even (ceil_half i) then - 45 else - 85))"
  by (simp add: renderLine_height_def Let_def even_iff_mod_2_eq_zero)

text \<open>
  C1. The marker of index \<open>i\<close> is drawn at the below level \<open>-27\<close> when \<open>i\<close> is even and
  at an above level when \<open>i\<close> is odd: the near one (30) when \<open>ceil (i / 2)\<close> is odd, the far
  one (70) when it is even. The stagger of the bar (its height) follows the parity of
  \<open>floor (i / 2)\<close> below and of \<open>ceil (i / 2)\<close> above. In a plot whose height is not the
  top margin the scale tells the levels apart, so the marker is at the below coordinate
  iff \<open>i\<close> is even and at one of the two above coordinates iff \<open>i\<close> is odd. The layout of
  index \<open>i + 4\<close> is that of index \<open>i\<close>.
\<close>

theorem C1_alternating_layout:
  "renderLine_y gHeight i =
     yScale gHeight (if even i then - 27 else if odd \<lceil>real i / 2\<rceil> then 30 else 70) \<and>
   renderLine_height gHeight i =
     gHeight - yScale gHeight
       (if even i then (if even \<lfloor>real i / 2\<rfloor> then - 45 else - 85)
        else (if even \<lceil>real i / 2\<rceil> then - 45 else - 85)) \<and>
   (gHeight \<noteq> margin_top \<longrightarrow>
      ((renderLine_y gHeight i = yScale gHeight (- 27)) = even i) \<and>
      ((renderLine_y gHeight i = yScale gHeight 30 \<or>
        renderLine_y gHeight i = yScale gHeight 70) = odd i)) \<and>
   renderLine_y gHeight (i + 4) = renderLine_y gHeight i \<and>
   renderLine_height gHeight (i + 4) = renderLine_height gHeight i"
proof -
  have level: "renderLine_y gHeight i =
      yScale gHeight (if even i then - 27 else if odd \<lceil>real i / 2\<rceil> then 30 else 70)"
    unfolding ceil_half_real by (simp add: renderLine_y_even_odd)
  have height: "renderLine_height gHeight i =
      gHeight - yScale gHeight
        (if even i then (if even \<lfloor>real i / 2\<rfloor> then - 45 else - 85)
         else (if even \<lceil>real i / 2\<rceil> then - 45 else - 85))"
    unfolding ceil_half_real floor_half_real by (simp add: renderLine_height_even_odd)
  have lanes: "((renderLine_y gHeight i = yScale gHeight (- 27)) = even i) \<and>
      ((renderLine_y gHeight i = yScale gHeight 30 \<or>
        renderLine_y gHeight i = yScale gHeight 70) = odd i)"
    if nondeg: "gHeight \<noteq> margin_top"
  proof -
    have neq: "yScale gHeight a \<noteq> yScale gHeight b" if "a \<noteq> b" for a b
      using yScale_inj [OF nondeg] that by blast
    show ?thesis
      using neq [of 70 "- 27"] neq [of 30 "- 27"] neq [of "- 27" 30] neq [of "- 27" 70]
      by (simp add: renderLine_y_even_odd)
  qed
  have period_y: "renderLine_y gHeight (i + 4) = renderLine_y gHeight i"
    by (simp add: renderLine_y_even_odd ceil_half_add4)
  have period_h: "renderLine_height gHeight (i + 4) = renderLine_height gHeight i"
    by (simp add: renderLine_height_even_odd ceil_half_add4)
  from level height lanes period_y period_h show ?thesis
    by blast
qed

theorem C1_alternating_layout_witness:
  "(400::real) \<noteq> margin_top \<and> odd (5::nat) \<and>
   renderLine_y 400 5 = yScale 400 30 \<and>
   renderLine_y 400 5 \<noteq> yScale 400 (- 27) \<and>
   renderLine_height 400 5 = 400 - yScale 400 (- 85) \<and>
   renderLine_y 400 9 = renderLine_y 400 5"
proof -
  have h: "(400::real) \<noteq> margin_top"
    by (simp add: margin_top_def)
  show ?thesis
    using h C1_alternating_layout [of 400 5] by simp
qed

subsection \<open>Years and time values\<close>

lemma DayFromYear_1970: "DayFromYear 1970 = 0"
  by (simp add: DayFromYear_def)

lemma DayFromYear_mono: "y \<le> z \<Longrightarrow> DayFromYear y \<le> DayFromYear z"
proof (induction z rule: int_ge_induct)
  case base
  show ?case by simp
next
  case (step i)
  then show ?case using DayFromYear_strict [of i] by simp
qed

lemma DayFromYear_strict_mono: "y < z \<Longrightarrow> DayFromYear y < DayFromYear z"
  using DayFromYear_mono [of "y + 1" z] DayFromYear_strict [of y] by simp

lemma DayFromYear_start_nonneg: "0 \<le> k \<Longrightarrow> DayFromYear (1970 + k) \<le> 366 * k"
proof (induction k rule: int_ge_induct)
  case base
  show ?case by (simp add: DayFromYear_1970)
next
  case (step i)
  have "DayFromYear (1970 + (i + 1)) = DayFromYear (1970 + i) + DaysInYear (1970 + i)"
    using DayFromYear_succ [of "1970 + i"] by (simp add: add.assoc)
  then show ?case using step.IH DaysInYear_bounds [of "1970 + i"] by simp
qed

lemma DayFromYear_start_neg: "k \<le> 0 \<Longrightarrow> DayFromYear (1970 + k) \<le> 365 * k"
proof (induction k rule: int_le_induct)
  case base
  show ?case by (simp add: DayFromYear_1970)
next
  case (step i)
  have "DayFromYear (1970 + i) = DayFromYear (1970 + (i - 1)) + DaysInYear (1970 + (i - 1))"
    using DayFromYear_succ [of "1970 + (i - 1)"] by (simp add: algebra_simps)
  then show ?case using step.IH DaysInYear_bounds [of "1970 + (i - 1)"] by simp
qed

lemma year_from_day_bounds:
  "DayFromYear y \<le> d \<Longrightarrow>
     DayFromYear (year_from_day d y) \<le> d \<and> d < DayFromYear (year_from_day d y + 1)"
proof (induction d y rule: year_from_day.induct)
  case (1 d y)
  show ?case
  proof (cases "DayFromYear (y + 1) \<le> d")
    case True
    then show ?thesis
      using "1.IH" by (subst (1 2) year_from_day.simps) simp
  next
    case False
    then show ?thesis
      using "1.prems" by (subst (1 2) year_from_day.simps) simp
  qed
qed

lemma year_start_le: "DayFromYear (1970 + (if 0 \<le> d then d div 366 else d div 365)) \<le> d"
proof (cases "0 \<le> d")
  case True
  then have "0 \<le> d div 366" by simp
  from DayFromYear_start_nonneg [OF this]
  have "DayFromYear (1970 + d div 366) \<le> 366 * (d div 366)" .
  also have "\<dots> \<le> d" by simp
  finally show ?thesis using True by simp
next
  case False
  then have "d div 365 \<le> 0" by simp
  from DayFromYear_start_neg [OF this]
  have "DayFromYear (1970 + d div 365) \<le> 365 * (d div 365)" .
  also have "\<dots> \<le> d" by simp
  finally show ?thesis using False by simp
qed

lemma msPerDay_pos: "0 < msPerDay"
  by (simp add: msPerDay_def)

lemma YearFromTime_bounds:
  "TimeFromYear (YearFromTime t) \<le> t \<and> t < TimeFromYear (YearFromTime t + 1)"
proof -
  define y where "y = YearFromTime t"
  have b: "DayFromYear y \<le> Day t \<and> Day t < DayFromYear (y + 1)"
    unfolding y_def YearFromTime_def Let_def by (rule year_from_day_bounds [OF year_start_le])
  have m: "t = msPerDay * Day t + t mod msPerDay"
    unfolding Day_def by simp
  have r: "0 \<le> t mod msPerDay" "t mod msPerDay < msPerDay"
    using msPerDay_pos by simp_all
  have lo: "msPerDay * DayFromYear y \<le> msPerDay * Day t"
    using b msPerDay_pos by simp
  have "Day t + 1 \<le> DayFromYear (y + 1)"
    using b by simp
  then have hi: "msPerDay * (Day t + 1) \<le> msPerDay * DayFromYear (y + 1)"
    using msPerDay_pos by (simp only: mult_le_cancel_left_pos)
  have "TimeFromYear y \<le> t"
    unfolding TimeFromYear_def using lo m r by linarith
  moreover have "t < TimeFromYear (y + 1)"
    unfolding TimeFromYear_def using hi m r by (simp add: algebra_simps)
  ultimately show ?thesis by (simp add: y_def)
qed

lemma TimeFromYear_strict_mono: "y < z \<Longrightarrow> TimeFromYear y < TimeFromYear z"
  unfolding TimeFromYear_def using DayFromYear_strict_mono [of y z] msPerDay_pos by simp

lemma TimeFromYear_mono: "y \<le> z \<Longrightarrow> TimeFromYear y \<le> TimeFromYear z"
  unfolding TimeFromYear_def using DayFromYear_mono [of y z] msPerDay_pos by simp

lemma YearFromTime_unique:
  assumes "TimeFromYear y \<le> t" and "t < TimeFromYear (y + 1)"
  shows "YearFromTime t = y"
proof (rule ccontr)
  assume ne: "YearFromTime t \<noteq> y"
  have b: "TimeFromYear (YearFromTime t) \<le> t" "t < TimeFromYear (YearFromTime t + 1)"
    using YearFromTime_bounds [of t] by simp_all
  show False
  proof (cases "YearFromTime t < y")
    case True
    then have "TimeFromYear (YearFromTime t + 1) \<le> TimeFromYear y"
      by (intro TimeFromYear_mono) simp
    with b assms show False by simp
  next
    case False
    with ne have "y + 1 \<le> YearFromTime t" by simp
    then have "TimeFromYear (y + 1) \<le> TimeFromYear (YearFromTime t)"
      by (rule TimeFromYear_mono)
    with b assms show False by simp
  qed
qed

lemma YearFromTime_TimeFromYear: "YearFromTime (TimeFromYear y) = y"
  by (rule YearFromTime_unique) (simp_all add: TimeFromYear_strict_mono)

lemma YearFromTime_mono:
  assumes "s \<le> t"
  shows "YearFromTime s \<le> YearFromTime t"
proof (rule ccontr)
  assume "\<not> YearFromTime s \<le> YearFromTime t"
  then have "YearFromTime t + 1 \<le> YearFromTime s" by simp
  then have "TimeFromYear (YearFromTime t + 1) \<le> TimeFromYear (YearFromTime s)"
    by (rule TimeFromYear_mono)
  with YearFromTime_bounds [of s] YearFromTime_bounds [of t] assms show False by simp
qed

subsection \<open>The window filter\<close>

lemmas eval_dates = YearFromTime_def Day_def msPerDay_def year_from_day.simps DayFromYear_def
  TimeFromYear_def maxTime_def Let_def

lemma keep_years_non_null:
  "\<forall>d\<in>set ds. Date d \<noteq> None \<Longrightarrow>
     keep_years tza p ds =
       Inr (filter (\<lambda>d. case Date d of None \<Rightarrow> False | Some dt \<Rightarrow> p (getFullYear tza dt)) ds)"
  by (induction ds) (auto simp: bind_def)

lemma new_Date_y_0_1_year:
  assumes "new_Date_y_0_1 tza (Fin y) \<noteq> Invalid_Date" and "y < 0 \<or> 99 < y"
  shows "new_Date_y_0_1 tza (Fin y) = Valid_Date (TimeFromYear y - tza)"
    and "getFullYear tza (new_Date_y_0_1 tza (Fin y)) = Fin y"
  using assms by (auto simp: Let_def YearFromTime_TimeFromYear split: if_splits)

lemma window_filter_non_null:
  assumes "\<forall>d\<in>set timelineData. Date d \<noteq> None"
  shows "window_filter tza now st timelineData =
           Inr (filter (in_window tza now st) timelineData,
                new_Date_y_0_1 tza (Fin (YearFromTime (now + tza) - PreviousYear st)),
                new_Date_y_0_1 tza (Fin (YearFromTime (now + tza) + FutureYear st)))"
proof -
  let ?p1 = "\<lambda>d. case Date d of None \<Rightarrow> False
                  | Some dt \<Rightarrow> js_ge (getFullYear tza dt) (minDate_getFullYear tza now st)"
  let ?p2 = "\<lambda>d. case Date d of None \<Rightarrow> False
                  | Some dt \<Rightarrow> js_le (getFullYear tza dt) (maxDate_getFullYear tza now st)"
  have first: "keep_years tza (\<lambda>y. js_ge y (minDate_getFullYear tza now st)) timelineData =
      Inr (filter ?p1 timelineData)"
    using assms by (rule keep_years_non_null)
  have "\<forall>d\<in>set (filter ?p1 timelineData). Date d \<noteq> None"
    using assms by simp
  then have second: "keep_years tza (\<lambda>y. js_le y (maxDate_getFullYear tza now st)) (filter ?p1 timelineData) =
      Inr (filter ?p2 (filter ?p1 timelineData))"
    by (rule keep_years_non_null)
  have both: "filter ?p2 (filter ?p1 timelineData) = filter (in_window tza now st) timelineData"
    by (auto simp: in_window_def intro!: filter_cong split: option.splits)
  show ?thesis
    using first second both
    by (simp add: window_filter_def Let_def bind_def minDate_getFullYear_def maxDate_getFullYear_def)
qed

text \<open>
  C2 (amended). When no record has a null date (in particular when every date is
  non-null and parseable), the window filter returns exactly the records whose date's
  year is at least the year of \<open>new Date(currentYear - PreviousYear, 0, 1)\<close> and at most
  the year of \<open>new Date(currentYear + FutureYear, 0, 1)\<close>, in their input order, together
  with those two dates. When the two years \<open>currentYear - PreviousYear\<close> and
  \<open>currentYear + FutureYear\<close> are outside 0..99 and the two dates are valid, these are the
  first of January of those calendar years, and the records kept are exactly those whose
  year lies between the two calendar years.
\<close>

theorem C2_window_filter:
  assumes "\<forall>d\<in>set timelineData. Date d \<noteq> None"
  shows "window_filter tza now st timelineData =
           Inr (filter (in_window tza now st) timelineData,
                new_Date_y_0_1 tza (Fin (YearFromTime (now + tza) - PreviousYear st)),
                new_Date_y_0_1 tza (Fin (YearFromTime (now + tza) + FutureYear st))) \<and>
         ((YearFromTime (now + tza) - PreviousYear st < 0 \<or>
           99 < YearFromTime (now + tza) - PreviousYear st) \<and>
          (YearFromTime (now + tza) + FutureYear st < 0 \<or>
           99 < YearFromTime (now + tza) + FutureYear st) \<and>
          new_Date_y_0_1 tza (Fin (YearFromTime (now + tza) - PreviousYear st)) \<noteq> Invalid_Date \<and>
          new_Date_y_0_1 tza (Fin (YearFromTime (now + tza) + FutureYear st)) \<noteq> Invalid_Date
          \<longrightarrow> window_filter tza now st timelineData =
                Inr (filter (in_year_window tza now st) timelineData,
                     Valid_Date (TimeFromYear (YearFromTime (now + tza) - PreviousYear st) - tza),
                     Valid_Date (TimeFromYear (YearFromTime (now + tza) + FutureYear st) - tza)))"
proof -
  let ?lo = "YearFromTime (now + tza) - PreviousYear st"
  let ?hi = "YearFromTime (now + tza) + FutureYear st"
  note code = window_filter_non_null [OF assms, of tza now st]
  have calendar: "window_filter tza now st timelineData =
      Inr (filter (in_year_window tza now st) timelineData,
           Valid_Date (TimeFromYear ?lo - tza), Valid_Date (TimeFromYear ?hi - tza))"
    if lo: "?lo < 0 \<or> 99 < ?lo" and hi: "?hi < 0 \<or> 99 < ?hi"
      and vlo: "new_Date_y_0_1 tza (Fin ?lo) \<noteq> Invalid_Date"
      and vhi: "new_Date_y_0_1 tza (Fin ?hi) \<noteq> Invalid_Date"
  proof -
    have same: "in_window tza now st = in_year_window tza now st"
      unfolding in_window_def in_year_window_def minDate_getFullYear_def maxDate_getFullYear_def
        new_Date_y_0_1_year(2) [OF vlo lo] new_Date_y_0_1_year(2) [OF vhi hi] ..
    show ?thesis
      unfolding code same new_Date_y_0_1_year(1) [OF vlo lo] new_Date_y_0_1_year(1) [OF vhi hi] ..
  qed
  from code calendar show ?thesis
    by blast
qed

theorem C2_window_filter_witness:
  "window_filter 0 1717200000000 \<lparr>layout = ''header'', PreviousYear = 2, FutureYear = 1\<rparr>
     [\<lparr>Company = ''A'', Type = ''Regulatory'', Description = None,
        Date = Some (Valid_Date 1578268800000), DocumentLink = None, HeaderImage = None,
        FooterImage = None, selectionId = 0\<rparr>,
      \<lparr>Company = ''B'', Type = ''Commercial'', Description = None,
        Date = Some (Valid_Date 1672963200000), DocumentLink = None, HeaderImage = None,
        FooterImage = None, selectionId = 1\<rparr>] =
   Inr ([\<lparr>Company = ''B'', Type = ''Commercial'', Description = None,
           Date = Some (Valid_Date 1672963200000), DocumentLink = None, HeaderImage = None,
           FooterImage = None, selectionId = 1\<rparr>],
        Valid_Date 1640995200000, Valid_Date 1735689600000) \<and>
   YearFromTime (1717200000000 + 0) - 2 = 2022 \<and>
   YearFromTime (1717200000000 + 0) + 1 = 2025"
proof -
  let ?st = "\<lparr>layout = ''header'', PreviousYear = 2, FutureYear = 1\<rparr>"
  let ?data = "[\<lparr>Company = ''A'', Type = ''Regulatory'', Description = None,
        Date = Some (Valid_Date 1578268800000), DocumentLink = None, HeaderImage = None,
        FooterImage = None, selectionId = 0\<rparr>,
      \<lparr>Company = ''B'', Type = ''Commercial'', Description = None,
        Date = Some (Valid_Date 1672963200000), DocumentLink = None, HeaderImage = None,
        FooterImage = None, selectionId = 1\<rparr>]"
  have non_null: "\<forall>d\<in>set ?data. Date d \<noteq> None"
    by simp
  show ?thesis
    using C2_window_filter [OF non_null, of 0 1717200000000 ?st, THEN conjunct2]
    by (simp add: in_year_window_def js_ge_def eval_dates)
qed

text \<open>
  With the calendar years the statement does not hold for a window that starts in a year
  from 0 to 99: in 2024 with \<open>PreviousYear = 1974\<close> the window starts in the year 50, but
  \<open>new Date(50, 0, 1)\<close> is the first of January 1950, and a record of 1940 is dropped
  although 50 \<open>\<le>\<close> 1940 \<open>\<le>\<close> 2025.
\<close>

theorem C2_two_digit_year_counterexample:
  "window_filter 0 1717200000000 \<lparr>layout = ''header'', PreviousYear = 1974, FutureYear = 1\<rparr>
     [\<lparr>Company = ''A'', Type = ''Regulatory'', Description = None,
        Date = Some (Valid_Date (- 946339200000)), DocumentLink = None, HeaderImage = None,
        FooterImage = None, selectionId = 0\<rparr>] =
   Inr ([], Valid_Date (- 631152000000), Valid_Date 1735689600000) \<and>
   getFullYear 0 (Valid_Date (- 946339200000)) = Fin 1940 \<and>
   YearFromTime (1717200000000 + 0) - 1974 = 50 \<and>
   YearFromTime (1717200000000 + 0) + 1 = 2025 \<and>
   getFullYear 0 (Valid_Date (- 631152000000)) = Fin 1950 \<and>
   in_year_window 0 1717200000000 \<lparr>layout = ''header'', PreviousYear = 1974, FutureYear = 1\<rparr>
     \<lparr>Company = ''A'', Type = ''Regulatory'', Description = None,
       Date = Some (Valid_Date (- 946339200000)), DocumentLink = None, HeaderImage = None,
       FooterImage = None, selectionId = 0\<rparr>"
  by (simp add: window_filter_def in_year_window_def bind_def js_ge_def eval_dates)

subsection \<open>The fallback to the extent of the data\<close>

lemma min2_Fin: "min2 (Fin a) (Fin b) = Fin (min a b)"
  by (simp add: min_def)

lemma max2_Fin: "max2 (Fin a) (Fin b) = Fin (max a b)"
  by (simp add: max_def)

lemma Math_min_Fin: "ts \<noteq> [] \<Longrightarrow> Math_min (map Fin ts) = Fin (Min (set ts))"
proof (induction ts)
  case Nil
  then show ?case by simp
next
  case (Cons t ts)
  show ?case
  proof (cases "ts = []")
    case True
    then show ?thesis by simp
  next
    case False
    then have "Min (set (t # ts)) = min t (Min (set ts))"
      by (simp only: list.set Min.insert [OF finite_set] set_empty not_False_eq_True)
    with Cons.IH [OF False] show ?thesis by (simp only: list.map Math_min.simps min2_Fin)
  qed
qed

lemma Math_max_Fin: "ts \<noteq> [] \<Longrightarrow> Math_max (map Fin ts) = Fin (Max (set ts))"
proof (induction ts)
  case Nil
  then show ?case by simp
next
  case (Cons t ts)
  show ?case
  proof (cases "ts = []")
    case True
    then show ?thesis by simp
  next
    case False
    then have "Max (set (t # ts)) = max t (Max (set ts))"
      by (simp only: list.set Max.insert [OF finite_set] set_empty not_False_eq_True)
    with Cons.IH [OF False] show ?thesis by (simp only: list.map Math_max.simps max2_Fin)
  qed
qed

lemma year_mono: "mono (\<lambda>t. YearFromTime (t + tza))"
  by (rule monoI) (simp add: YearFromTime_mono)

lemma data_extent_valid:
  assumes ne: "ts \<noteq> []"
    and dates: "map Date timelineData = map (\<lambda>t. Some (Valid_Date t)) ts"
    and clipped: "\<forall>t\<in>set ts. \<bar>t\<bar> \<le> maxTime"
  shows "data_extent tza timelineData =
           (new_Date_y_0_1 tza (Fin (Min (set (map (\<lambda>t. YearFromTime (t + tza)) ts)))),
            new_Date_y_0_1 tza (Fin (Max (set (map (\<lambda>t. YearFromTime (t + tza)) ts)) + 1)))"
proof -
  have "map (\<lambda>d. ToNumber_Date (Date d)) timelineData = map ToNumber_Date (map Date timelineData)"
    by simp
  also have "\<dots> = map Fin ts"
    unfolding dates by simp
  finally have nums: "map (\<lambda>d. ToNumber_Date (Date d)) timelineData = map Fin ts" .
  have fin: "finite (set ts)" and ne': "set ts \<noteq> {}"
    using ne by simp_all
  have "Min (set ts) \<in> set ts" "Max (set ts) \<in> set ts"
    using fin ne' by (auto intro: Min_in Max_in)
  then have lo: "TimeClip (Fin (Min (set ts))) = Valid_Date (Min (set ts))"
    and hi: "TimeClip (Fin (Max (set ts))) = Valid_Date (Max (set ts))"
    using clipped by auto
  have ymin: "YearFromTime (Min (set ts) + tza) = Min (set (map (\<lambda>t. YearFromTime (t + tza)) ts))"
    using mono_Min_commute [OF year_mono fin ne', of tza] by simp
  have ymax: "YearFromTime (Max (set ts) + tza) = Max (set (map (\<lambda>t. YearFromTime (t + tza)) ts))"
    using mono_Max_commute [OF year_mono fin ne', of tza] by simp
  show ?thesis
    unfolding data_extent_def nums Math_min_Fin [OF ne] Math_max_Fin [OF ne] Let_def lo hi
    by (simp add: ymin ymax)
qed

lemma resolve_window_fallback:
  assumes ne: "ts \<noteq> []"
    and dates: "map Date timelineData = map (\<lambda>t. Some (Valid_Date t)) ts"
    and clipped: "\<forall>t\<in>set ts. \<bar>t\<bar> \<le> maxTime"
    and outside: "\<forall>d\<in>set timelineData. \<not> in_window tza now st d"
  shows "resolve_window tza now st timelineData =
           Inr (timelineData,
                new_Date_y_0_1 tza (Fin (Min (set (map (\<lambda>t. YearFromTime (t + tza)) ts)))),
                new_Date_y_0_1 tza (Fin (Max (set (map (\<lambda>t. YearFromTime (t + tza)) ts)) + 1)))"
proof -
  have len: "length timelineData = length ts"
    using dates by (metis length_map)
  then have nonempty: "0 < length timelineData"
    using ne by simp
  have non_null: "\<forall>d\<in>set timelineData. Date d \<noteq> None"
  proof
    fix d assume "d \<in> set timelineData"
    then have "Date d \<in> set (map Date timelineData)" by simp
    then show "Date d \<noteq> None" unfolding dates by auto
  qed
  have empty: "filter (in_window tza now st) timelineData = []"
    using outside by (simp add: filter_empty_conv)
  show ?thesis
    using nonempty
    by (simp add: resolve_window_def window_filter_non_null [OF non_null] empty bind_def
        data_extent_valid [OF ne dates clipped])
qed

subsection \<open>Null dates\<close>

lemma keep_years_null:
  "\<exists>d\<in>set ds. Date d = None \<Longrightarrow> keep_years tza p ds = Inl (TypeError ''getFullYear'')"
proof (induction ds)
  case Nil
  then show ?case by simp
next
  case (Cons a ds)
  show ?case
  proof (cases "Date a")
    case None
    then show ?thesis by simp
  next
    case (Some dt)
    with Cons.prems have "\<exists>d\<in>set ds. Date d = None" by auto
    from Cons.IH [OF this] Some show ?thesis by (simp add: bind_def)
  qed
qed


text \<open>
  C3 (amended). For a non-empty sequence whose dates are all valid (non-null, and not an
  Invalid Date; \<open>ts\<close> are their time values, within the range of time values) and of
  which no record falls inside the window, the active set is the whole sequence and the
  axis domain runs from \<open>new Date(y, 0, 1)\<close> for the least year \<open>y\<close> present in the data to
  \<open>new Date(z + 1, 0, 1)\<close> for the greatest year \<open>z\<close> present.
\<close>

theorem C3_fallback_domain:
  assumes "ts \<noteq> []"
    and "map Date timelineData = map (\<lambda>t. Some (Valid_Date t)) ts"
    and "\<forall>t\<in>set ts. \<bar>t\<bar> \<le> maxTime"
    and "\<forall>d\<in>set timelineData. \<not> in_window tza now st d"
  shows "resolve_window tza now st timelineData =
           Inr (timelineData,
                new_Date_y_0_1 tza (Fin (Min (set (map (\<lambda>t. YearFromTime (t + tza)) ts)))),
                new_Date_y_0_1 tza (Fin (Max (set (map (\<lambda>t. YearFromTime (t + tza)) ts)) + 1)))"
  using assms by (rule resolve_window_fallback)

theorem C3_fallback_domain_witness:
  "resolve_window 0 1717200000000 \<lparr>layout = ''header'', PreviousYear = 2, FutureYear = 1\<rparr>
     [\<lparr>Company = ''A'', Type = ''Regulatory'', Description = None,
        Date = Some (Valid_Date 1578268800000), DocumentLink = None, HeaderImage = None,
        FooterImage = None, selectionId = 0\<rparr>,
      \<lparr>Company = ''B'', Type = ''Commercial'', Description = None,
        Date = Some (Valid_Date 631584000000), DocumentLink = None, HeaderImage = None,
        FooterImage = None, selectionId = 1\<rparr>] =
   Inr ([\<lparr>Company = ''A'', Type = ''Regulatory'', Description = None,
           Date = Some (Valid_Date 1578268800000), DocumentLink = None, HeaderImage = None,
           FooterImage = None, selectionId = 0\<rparr>,
         \<lparr>Company = ''B'', Type = ''Commercial'', Description = None,
           Date = Some (Valid_Date 631584000000), DocumentLink = None, HeaderImage = None,
           FooterImage = None, selectionId = 1\<rparr>],
        Valid_Date 631152000000, Valid_Date 1609459200000)"
  by (subst C3_fallback_domain [of "[1578268800000, 631584000000]"])
     (simp_all add: in_window_def minDate_getFullYear_def maxDate_getFullYear_def js_ge_def eval_dates)

text \<open>
  With non-null dates only, the statement does not hold: beside a record of 1990, a record whose date
  is an Invalid Date (an unparseable cell) is outside every window, and makes both ends
  of the fallback domain Invalid Dates instead of the first of January of 1990 and 1991.
\<close>

theorem C3_invalid_date_counterexample:
  "resolve_window 0 1717200000000 \<lparr>layout = ''header'', PreviousYear = 2, FutureYear = 1\<rparr>
     [\<lparr>Company = ''A'', Type = ''Regulatory'', Description = None,
        Date = Some (Valid_Date 631584000000), DocumentLink = None, HeaderImage = None,
        FooterImage = None, selectionId = 0\<rparr>,
      \<lparr>Company = ''B'', Type = ''Commercial'', Description = None,
        Date = Some Invalid_Date, DocumentLink = None, HeaderImage = None,
        FooterImage = None, selectionId = 1\<rparr>] =
   Inr ([\<lparr>Company = ''A'', Type = ''Regulatory'', Description = None,
           Date = Some (Valid_Date 631584000000), DocumentLink = None, HeaderImage = None,
           FooterImage = None, selectionId = 0\<rparr>,
         \<lparr>Company = ''B'', Type = ''Commercial'', Description = None,
           Date = Some Invalid_Date, DocumentLink = None, HeaderImage = None,
           FooterImage = None, selectionId = 1\<rparr>],
        Invalid_Date, Invalid_Date) \<and>
   getFullYear 0 (Valid_Date 631584000000) = Fin 1990 \<and>
   new_Date_y_0_1 0 (Fin 1990) = Valid_Date 631152000000 \<and>
   new_Date_y_0_1 0 (Fin 1991) = Valid_Date 662688000000"
  by (simp add: resolve_window_def window_filter_def data_extent_def bind_def js_ge_def eval_dates)

text \<open>
  C4. The code does not drop a null-dated record: the first pass of the window filter
  reads \<open>d.Date.getFullYear()\<close> of every record, so a sequence that contains a record
  whose date is null makes the filter, and with it the update, raise a \<open>TypeError\<close>.
\<close>

theorem C4_null_date_raises:
  assumes "\<exists>d\<in>set timelineData. Date d = None"
  shows "window_filter tza now st timelineData = Inl (TypeError ''getFullYear'') \<and>
         resolve_window tza now st timelineData = Inl (TypeError ''getFullYear'')"
proof -
  have w: "window_filter tza now st timelineData = Inl (TypeError ''getFullYear'')"
    by (simp add: window_filter_def Let_def keep_years_null [OF assms] bind_def)
  have "timelineData \<noteq> []"
    using assms by auto
  with w show ?thesis
    by (simp add: resolve_window_def bind_def)
qed

theorem C4_null_date_raises_witness:
  "window_filter 0 1717200000000 \<lparr>layout = ''header'', PreviousYear = 2, FutureYear = 1\<rparr>
     [\<lparr>Company = ''A'', Type = ''Regulatory'', Description = None,
        Date = Some (Valid_Date 1672963200000), DocumentLink = None, HeaderImage = None,
        FooterImage = None, selectionId = 0\<rparr>,
      \<lparr>Company = ''B'', Type = ''Commercial'', Description = None,
        Date = None, DocumentLink = None, HeaderImage = None,
        FooterImage = None, selectionId = 1\<rparr>] = Inl (TypeError ''getFullYear'')"
  by (rule C4_null_date_raises [THEN conjunct1]) simp

subsection \<open>The scan of the columns\<close>

lemma scan_column_index:
  assumes "r \<in> set role_names"
  shows "index_of_role (scan_column ti c idx) r =
           (if selected_role c = Some r then int ti else index_of_role idx r)"
  using assms
  by (auto simp: role_names_def selected_role_def scan_column_def index_of_role_def)

lemma scan_columns_snoc:
  "scan_columns n (cs @ [c]) idx = scan_column (n + length cs) c (scan_columns n cs idx)"
  by (induction cs arbitrary: n idx) simp_all

lemma no_indices_role: "index_of_role no_indices r = - 1"
  by (simp add: index_of_role_def no_indices_def)

lemma scan_columns_last:
  assumes r: "r \<in> set role_names"
  shows "(if \<exists>c\<in>set cols. selected_role c = Some r
          then 0 \<le> index_of_role (scan_columns 0 cols no_indices) r \<and>
               nat (index_of_role (scan_columns 0 cols no_indices) r) < length cols \<and>
               selected_role (cols ! nat (index_of_role (scan_columns 0 cols no_indices) r)) = Some r \<and>
               (\<forall>j. nat (index_of_role (scan_columns 0 cols no_indices) r) < j \<and> j < length cols
                  \<longrightarrow> selected_role (cols ! j) \<noteq> Some r)
          else index_of_role (scan_columns 0 cols no_indices) r = - 1)"
proof (induction cols rule: rev_induct)
  case Nil
  show ?case by (simp add: no_indices_role)
next
  case (snoc c cs)
  let ?k = "index_of_role (scan_columns 0 cs no_indices) r"
  have k': "index_of_role (scan_columns 0 (cs @ [c]) no_indices) r =
      (if selected_role c = Some r then int (length cs) else ?k)"
    by (simp add: scan_columns_snoc scan_column_index [OF r])
  show ?case
  proof (cases "selected_role c = Some r")
    case True
    then show ?thesis unfolding k' by (auto simp: nth_append)
  next
    case False
    show ?thesis
    proof (cases "\<exists>c\<in>set cs. selected_role c = Some r")
      case True
      with snoc.IH have ih: "0 \<le> ?k" "nat ?k < length cs" "selected_role (cs ! nat ?k) = Some r"
        "\<forall>j. nat ?k < j \<and> j < length cs \<longrightarrow> selected_role (cs ! j) \<noteq> Some r"
        by simp_all
      have "\<forall>j. nat ?k < j \<and> j < length (cs @ [c]) \<longrightarrow> selected_role ((cs @ [c]) ! j) \<noteq> Some r"
        using ih(4) False by (auto simp: nth_append less_Suc_eq)
      then show ?thesis
        unfolding k' using True False ih(1-3) by (simp add: nth_append)
    next
      case no: False
      with snoc.IH have "?k = - 1" by simp
      then show ?thesis unfolding k' using no False by simp
    qed
  qed
qed

subsection \<open>The conversion of the rows\<close>

lemma toString_text_of: "c \<noteq> Undefined \<Longrightarrow> c \<noteq> Null \<Longrightarrow> toString c = Inr (text_of c)"
  by (cases c) (simp_all add: text_of_def)

lemma truthy_toString: "truthy c \<Longrightarrow> toString c = Inr (text_of c)"
  by (cases c) (simp_all add: text_of_def)

lemma toString_or_null_eq: "toString_or_null c = Inr (text_or_null c)"
  by (simp add: toString_or_null_def text_or_null_def truthy_toString bind_def)

lemma convert_row_emitted:
  assumes "row_at row (companyIndex idx) \<noteq> Undefined" and "row_at row (companyIndex idx) \<noteq> Null"
  shows "convert_row Date_parse idx i row = Inr (emitted_record Date_parse idx i row)"
  by (simp add: convert_row_def emitted_record_def toString_text_of [OF assms]
      toString_or_null_eq truthy_toString bind_def)

lemma convert_row_raises:
  assumes "row_at row (companyIndex idx) = Undefined \<or> row_at row (companyIndex idx) = Null"
  shows "convert_row Date_parse idx i row = Inl (TypeError ''toString'')"
  using assms by (auto simp: convert_row_def bind_def)

lemma convert_rows_emitted:
  assumes "\<forall>row\<in>set rs. row_at row (companyIndex idx) \<noteq> Undefined \<and> row_at row (companyIndex idx) \<noteq> Null"
  shows "convert_rows Date_parse idx i rs =
           Inr (map (\<lambda>(j, row). emitted_record Date_parse idx j row) (enumerate i rs))"
  using assms
  by (induction rs arbitrary: i) (simp_all add: convert_row_emitted bind_def)

lemma convert_rows_take:
  "convert_rows Date_parse idx i rs = Inr out \<Longrightarrow>
     convert_rows Date_parse idx i (take n rs) = Inr (take n out)"
proof (induction rs arbitrary: i n out)
  case Nil
  then show ?case by simp
next
  case (Cons row rs)
  show ?case
  proof (cases n)
    case 0
    then show ?thesis by simp
  next
    case (Suc m)
    from Cons.prems obtain dp dps where dp: "convert_row Date_parse idx i row = Inr dp"
      and dps: "convert_rows Date_parse idx (Suc i) rs = Inr dps" and out: "out = dp # dps"
      by (auto simp: bind_def split: sum.splits)
    from Cons.IH [OF dps, of m] show ?thesis
      using dp out Suc by (simp add: bind_def)
  qed
qed

lemma row_at_absent: "row_at row (- 1) = Undefined"
  by (simp add: row_at_def)


text \<open>
  C6. For each recognised role, the index the scan records is that of the last column
  whose branch of the conditional chain was the one of that role (\<open>-1\<close> when no column
  selects it): no later column selects the role, and of two columns that select the same
  role the earlier one is never the one recorded.
\<close>

theorem C6_last_column_wins:
  assumes "r \<in> set role_names"
  shows "(if \<exists>c\<in>set cols. selected_role c = Some r
          then 0 \<le> index_of_role (scan_columns 0 cols no_indices) r \<and>
               nat (index_of_role (scan_columns 0 cols no_indices) r) < length cols \<and>
               selected_role (cols ! nat (index_of_role (scan_columns 0 cols no_indices) r)) = Some r \<and>
               (\<forall>j. nat (index_of_role (scan_columns 0 cols no_indices) r) < j \<and> j < length cols
                  \<longrightarrow> selected_role (cols ! j) \<noteq> Some r)
          else index_of_role (scan_columns 0 cols no_indices) r = - 1) \<and>
         (\<forall>i j. i < j \<and> j < length cols \<and> selected_role (cols ! i) = Some r \<and>
                selected_role (cols ! j) = Some r
            \<longrightarrow> int j \<le> index_of_role (scan_columns 0 cols no_indices) r \<and>
                index_of_role (scan_columns 0 cols no_indices) r \<noteq> int i)"
proof -
  let ?k = "index_of_role (scan_columns 0 cols no_indices) r"
  note last = scan_columns_last [OF assms, of cols]
  have later: "int j \<le> ?k \<and> ?k \<noteq> int i"
    if "i < j" "j < length cols" "selected_role (cols ! j) = Some r" for i j
  proof -
    have ex: "\<exists>c\<in>set cols. selected_role c = Some r"
      using that(2,3) nth_mem by blast
    with last have k: "0 \<le> ?k"
      "\<forall>j. nat ?k < j \<and> j < length cols \<longrightarrow> selected_role (cols ! j) \<noteq> Some r"
      by simp_all
    have "\<not> nat ?k < j"
      using k(2) that(2,3) by blast
    with k(1) that(1) show ?thesis by linarith
  qed
  from last later show ?thesis by blast
qed

theorem C6_last_column_wins_witness:
  "index_of_role (scan_columns 0 [\<lparr>roles = [''Company'']\<rparr>, \<lparr>roles = [''Date'']\<rparr>,
      \<lparr>roles = [''Company'']\<rparr>] no_indices) ''Company'' = 2 \<and>
   companyIndex (scan_columns 0 [\<lparr>roles = [''Company'']\<rparr>, \<lparr>roles = [''Date'']\<rparr>,
      \<lparr>roles = [''Company'']\<rparr>] no_indices) = 2 \<and>
   selected_role \<lparr>roles = [''Company'']\<rparr> = Some ''Company''"
  using C6_last_column_wins [of "''Company''"
      "[\<lparr>roles = [''Company'']\<rparr>, \<lparr>roles = [''Date'']\<rparr>, \<lparr>roles = [''Company'']\<rparr>]"]
  by (simp add: role_names_def selected_role_def hasOwnProperty_def index_of_role_def
      scan_column_def no_indices_def)

text \<open>
  C5 (amended). When the Company cell of every row is present and not null, the
  converter does not raise and returns one record per row, in row order; in each record
  a field other than Company whose role column is absent (index \<open>-1\<close>) or whose cell is
  falsy is null (the empty string for Type), and a truthy date cell gives a Date object,
  which is an Invalid Date, not null, when the parser does not accept its text.
\<close>

theorem C5_rows_converted:
  assumes "\<forall>row\<in>set (rows tableView).
             row_at row (companyIndex (scan_columns 0 (columns tableView) no_indices)) \<noteq> Undefined \<and>
             row_at row (companyIndex (scan_columns 0 (columns tableView) no_indices)) \<noteq> Null"
  shows "CONVERTER Date_parse tableView =
           Inr (map (\<lambda>(i, row). emitted_record Date_parse
                       (scan_columns 0 (columns tableView) no_indices) i row)
                  (enumerate 0 (rows tableView))) \<and>
         (\<forall>idx i row.
            (typeIndex idx = - 1 \<longrightarrow> Type (emitted_record Date_parse idx i row) = []) \<and>
            (descIndex idx = - 1 \<longrightarrow> Description (emitted_record Date_parse idx i row) = None) \<and>
            (dateIndex idx = - 1 \<longrightarrow> Date (emitted_record Date_parse idx i row) = None) \<and>
            (linkIndex idx = - 1 \<longrightarrow> DocumentLink (emitted_record Date_parse idx i row) = None) \<and>
            (headerImageIndex idx = - 1 \<longrightarrow> HeaderImage (emitted_record Date_parse idx i row) = None) \<and>
            (footerImageIndex idx = - 1 \<longrightarrow> FooterImage (emitted_record Date_parse idx i row) = None) \<and>
            (truthy (row_at row (dateIndex idx)) \<and>
             Date_parse (text_of (row_at row (dateIndex idx))) = NaN
               \<longrightarrow> Date (emitted_record Date_parse idx i row) = Some Invalid_Date))"
proof -
  have "CONVERTER Date_parse tableView =
      Inr (map (\<lambda>(i, row). emitted_record Date_parse
                  (scan_columns 0 (columns tableView) no_indices) i row)
             (enumerate 0 (rows tableView)))"
    unfolding CONVERTER_def using assms by (rule convert_rows_emitted)
  moreover have "text_or_null (row_at row (- 1)) = None" for row
    by (simp add: row_at_absent text_or_null_def)
  ultimately show ?thesis
    by (simp add: emitted_record_def row_at_absent)
qed

theorem C5_rows_converted_witness:
  "CONVERTER (\<lambda>s. if s = ''2023-06-01'' then Fin 1685577600000 else NaN)
     \<lparr>columns = [\<lparr>roles = [''Company'']\<rparr>, \<lparr>roles = [''Date'']\<rparr>, \<lparr>roles = [''Type'']\<rparr>],
      rows = [[Str ''Acme'', Str ''2023-06-01'', Str ''Regulatory''],
              [Str ''Bolt'', Str ''soon'', Null]]\<rparr> =
   Inr [\<lparr>Company = ''Acme'', Type = ''Regulatory'', Description = None,
          Date = Some (Valid_Date 1685577600000), DocumentLink = None, HeaderImage = None,
          FooterImage = None, selectionId = 0\<rparr>,
        \<lparr>Company = ''Bolt'', Type = [], Description = None,
          Date = Some Invalid_Date, DocumentLink = None, HeaderImage = None,
          FooterImage = None, selectionId = 1\<rparr>]"
  by (subst C5_rows_converted [THEN conjunct1])
     (simp_all add: scan_column_def hasOwnProperty_def no_indices_def row_at_def
        emitted_record_def text_or_null_def text_of_def enumerate_eq_zip maxTime_def)

text \<open>
  For every data view the statement fails twice: without a Company column, or with a null Company
  cell, the conversion raises; and an unparseable date cell becomes an Invalid Date
  object, not null.
\<close>

theorem C5_converter_counterexample:
  "CONVERTER (\<lambda>s. if s = ''2023-06-01'' then Fin 1685577600000 else NaN)
     \<lparr>columns = [\<lparr>roles = [''Date'']\<rparr>], rows = [[Str ''2023-06-01'']]\<rparr> =
   Inl (TypeError ''toString'') \<and>
   CONVERTER (\<lambda>s. if s = ''2023-06-01'' then Fin 1685577600000 else NaN)
     \<lparr>columns = [\<lparr>roles = [''Company'']\<rparr>, \<lparr>roles = [''Date'']\<rparr>],
      rows = [[Null, Str ''2023-06-01'']]\<rparr> =
   Inl (TypeError ''toString'') \<and>
   CONVERTER (\<lambda>s. if s = ''2023-06-01'' then Fin 1685577600000 else NaN)
     \<lparr>columns = [\<lparr>roles = [''Company'']\<rparr>, \<lparr>roles = [''Date'']\<rparr>],
      rows = [[Str ''Acme'', Str ''soon'']]\<rparr> =
   Inr [\<lparr>Company = ''Acme'', Type = [], Description = None,
          Date = Some Invalid_Date, DocumentLink = None, HeaderImage = None,
          FooterImage = None, selectionId = 0\<rparr>]"
  by (simp add: CONVERTER_def convert_row_def toString_or_null_def bind_def scan_column_def
      hasOwnProperty_def no_indices_def row_at_def)

text \<open>
  When the conversion returns, the records handed to the window filter and the layout
  are the first 100 converted records, at most 100 of them, and they are the conversions
  of the first 100 rows alone: two tables with the same columns and the same first 100
  rows, both of which convert, give the same result.
\<close>

lemma first_hundred_when_converted:
  assumes "CONVERTER Date_parse tableView = Inr converted"
  shows "update Date_parse validDataUrl tza now st tableView =
           render validDataUrl tza now st (take 100 converted) \<and>
         length (take 100 converted) \<le> 100 \<and>
         convert_rows Date_parse (scan_columns 0 (columns tableView) no_indices) 0
           (take 100 (rows tableView)) = Inr (take 100 converted) \<and>
         (\<forall>other converted'.
            CONVERTER Date_parse other = Inr converted' \<and>
            columns other = columns tableView \<and>
            take 100 (rows other) = take 100 (rows tableView)
            \<longrightarrow> update Date_parse validDataUrl tza now st other =
                update Date_parse validDataUrl tza now st tableView)"
proof -
  have upd: "update Date_parse validDataUrl tza now st t =
      render validDataUrl tza now st (take 100 c)"
    if "CONVERTER Date_parse t = Inr c" for t c
    using that by (simp add: update_def bind_def)
  have pre: "convert_rows Date_parse (scan_columns 0 (columns t) no_indices) 0
      (take 100 (rows t)) = Inr (take 100 c)"
    if "CONVERTER Date_parse t = Inr c" for t c
    using that unfolding CONVERTER_def by (rule convert_rows_take)
  have same: "update Date_parse validDataUrl tza now st other =
      update Date_parse validDataUrl tza now st tableView"
    if "CONVERTER Date_parse other = Inr converted'" "columns other = columns tableView"
      "take 100 (rows other) = take 100 (rows tableView)" for other converted'
  proof -
    have "Inr (take 100 converted') = (Inr (take 100 converted) :: error + TimelineData list)"
      using pre [OF that(1)] pre [OF assms] that(2,3) by simp
    then show ?thesis
      using upd [OF that(1)] upd [OF assms] by simp
  qed
  from upd [OF assms] pre [OF assms] same show ?thesis
    by auto
qed


lemma map_enumerate_replicate:
  "map f (enumerate i (replicate n r)) = map (\<lambda>j. f (j, r)) [i..<i + n]"
proof (induction n arbitrary: i)
  case 0
  show ?case by simp
next
  case (Suc n)
  have "[i..<i + Suc n] = i # [Suc i..<Suc i + n]"
    by (simp add: upt_conv_Cons)
  with Suc [of "Suc i"] show ?case by simp
qed

lemma convert_rows_raises:
  assumes "\<exists>row\<in>set rs. row_at row (companyIndex idx) = Undefined \<or>
             row_at row (companyIndex idx) = Null"
  shows "convert_rows Date_parse idx i rs = Inl (TypeError ''toString'')"
  using assms
proof (induction rs arbitrary: i)
  case Nil
  then show ?case by simp
next
  case (Cons row rs)
  show ?case
  proof (cases "row_at row (companyIndex idx) = Undefined \<or> row_at row (companyIndex idx) = Null")
    case True
    then show ?thesis
      by (simp add: convert_row_raises bind_def)
  next
    case False
    then have head: "convert_row Date_parse idx i row = Inr (emitted_record Date_parse idx i row)"
      by (simp add: convert_row_emitted)
    from False Cons.prems
    have "\<exists>row\<in>set rs. row_at row (companyIndex idx) = Undefined \<or>
        row_at row (companyIndex idx) = Null"
      by auto
    from Cons.IH [OF this, of "Suc i"] head show ?thesis
      by (simp add: bind_def)
  qed
qed

lemma update_120_rows:
  "update (\<lambda>s. if s = ''2023-06-01'' then Fin 1685577600000 else NaN) (\<lambda>u. False) 0 1717200000000
     \<lparr>layout = ''plain'', PreviousYear = 2, FutureYear = 1\<rparr>
     \<lparr>columns = [\<lparr>roles = [''Company'']\<rparr>, \<lparr>roles = [''Date'']\<rparr>],
      rows = replicate 120 [Str ''Acme'', Str ''2023-06-01'']\<rparr> =
   Inr \<lparr>active = map (\<lambda>i. \<lparr>Company = ''Acme'', Type = [], Description = None,
                 Date = Some (Valid_Date 1685577600000), DocumentLink = None,
                 HeaderImage = None, FooterImage = None, selectionId = i\<rparr>) [0..<100],
        axisDomain = (Valid_Date 1640995200000, Valid_Date 1735689600000),
        bannerImage = No_Image, tickMode = Yearly\<rparr>"
proof -
  let ?parse = "\<lambda>s. if s = ''2023-06-01'' then Fin 1685577600000 else NaN"
  let ?st = "\<lparr>layout = ''plain'', PreviousYear = 2, FutureYear = 1\<rparr>"
  let ?tbl = "\<lparr>columns = [\<lparr>roles = [''Company'']\<rparr>, \<lparr>roles = [''Date'']\<rparr>],
      rows = replicate 120 [Str ''Acme'', Str ''2023-06-01'']\<rparr>"
  let ?rec = "\<lambda>i. \<lparr>Company = ''Acme'', Type = [], Description = None,
                 Date = Some (Valid_Date 1685577600000), DocumentLink = None,
                 HeaderImage = None, FooterImage = None, selectionId = i\<rparr>"
  let ?idx = "\<lparr>companyIndex = 0, typeIndex = - 1, descIndex = - 1, dateIndex = 1,
       linkIndex = - 1, headerImageIndex = - 1, footerImageIndex = - 1\<rparr>"
  have idx: "scan_columns 0 [\<lparr>roles = [''Company'']\<rparr>, \<lparr>roles = [''Date'']\<rparr>] no_indices = ?idx"
    by (simp add: scan_column_def hasOwnProperty_def no_indices_def)
  have em: "emitted_record ?parse ?idx i [Str ''Acme'', Str ''2023-06-01''] = ?rec i" for i
    by (simp add: emitted_record_def row_at_def text_or_null_def text_of_def maxTime_def)
  have "convert_rows ?parse ?idx 0 (replicate 120 [Str ''Acme'', Str ''2023-06-01'']) =
      Inr (map (\<lambda>(j, row). emitted_record ?parse ?idx j row)
             (enumerate 0 (replicate 120 [Str ''Acme'', Str ''2023-06-01''])))"
    by (rule convert_rows_emitted) (simp add: row_at_def)
  also have "\<dots> = Inr (map ?rec [0..<120])"
    by (simp only: map_enumerate_replicate prod.case em) simp
  finally have conv: "CONVERTER ?parse ?tbl = Inr (map ?rec [0..<120])"
    by (simp only: CONVERTER_def table.simps idx)
  have capped: "update ?parse (\<lambda>u. False) 0 1717200000000 ?st ?tbl =
      render (\<lambda>u. False) 0 1717200000000 ?st (map ?rec [0..<100])"
    using first_hundred_when_converted [OF conv, THEN conjunct1] by (simp add: take_map)
  have inside: "in_window 0 1717200000000 ?st (?rec i)" for i
    by (simp add: in_window_def minDate_getFullYear_def maxDate_getFullYear_def js_ge_def
        eval_dates)
  have kept: "filter (in_window 0 1717200000000 ?st) (map ?rec [0..<100]) = map ?rec [0..<100]"
    by (simp add: filter_map o_def inside)
  have non_null: "\<forall>d\<in>set (map ?rec [0..<100]). Date d \<noteq> None"
    by simp
  have window: "window_filter 0 1717200000000 ?st (map ?rec [0..<100]) =
      Inr (map ?rec [0..<100], Valid_Date 1640995200000, Valid_Date 1735689600000)"
    unfolding window_filter_non_null [OF non_null] kept by (simp add: eval_dates)
  have resolved: "resolve_window 0 1717200000000 ?st (map ?rec [0..<100]) =
      Inr (map ?rec [0..<100], Valid_Date 1640995200000, Valid_Date 1735689600000)"
    unfolding resolve_window_def window by (simp add: bind_def)
  show ?thesis
    unfolding capped render_def resolved
    by (simp add: bind_def renderHeaderAndFooter_def toLowerCase_def lower_char_def
        axis_ticks_def Math_round_def)
qed

text \<open>
  C7. The cap is applied after the conversion of all rows, and the conversion of a row
  raises when its Company cell is missing or null. So a row at any index, the indices
  from 100 on included, can end the update with a \<open>TypeError\<close>: the rows beyond the first
  100 are not without effect on the output.
\<close>

theorem C7_row_beyond_cap_aborts:
  assumes "i < length (rows tableView)"
    and "row_at (rows tableView ! i)
           (companyIndex (scan_columns 0 (columns tableView) no_indices)) = Undefined \<or>
         row_at (rows tableView ! i)
           (companyIndex (scan_columns 0 (columns tableView) no_indices)) = Null"
  shows "update Date_parse validDataUrl tza now st tableView = Inl (TypeError ''toString'')"
proof -
  have "\<exists>row\<in>set (rows tableView).
      row_at row (companyIndex (scan_columns 0 (columns tableView) no_indices)) = Undefined \<or>
      row_at row (companyIndex (scan_columns 0 (columns tableView) no_indices)) = Null"
    using assms nth_mem by blast
  then have "CONVERTER Date_parse tableView = Inl (TypeError ''toString'')"
    unfolding CONVERTER_def by (rule convert_rows_raises)
  then show ?thesis
    by (simp add: update_def bind_def)
qed

text \<open>
  Of 120 rows, the row of index 110 has a null Company cell: the update raises, while
  the table with the same first 100 rows and a Company in every row renders the records
  0 to 99.
\<close>

theorem C7_row_beyond_cap_aborts_witness:
  "update (\<lambda>s. if s = ''2023-06-01'' then Fin 1685577600000 else NaN) (\<lambda>u. False) 0 1717200000000
     \<lparr>layout = ''plain'', PreviousYear = 2, FutureYear = 1\<rparr>
     \<lparr>columns = [\<lparr>roles = [''Company'']\<rparr>, \<lparr>roles = [''Date'']\<rparr>],
      rows = replicate 110 [Str ''Acme'', Str ''2023-06-01''] @ [Null, Str ''2023-06-01'']
               # replicate 9 [Str ''Acme'', Str ''2023-06-01'']\<rparr> =
   Inl (TypeError ''toString'') \<and>
   length (replicate 110 [Str ''Acme'', Str ''2023-06-01''] @ [Null, Str ''2023-06-01'']
             # replicate 9 [Str ''Acme'', Str ''2023-06-01'']) = 120 \<and>
   take 100 (replicate 110 [Str ''Acme'', Str ''2023-06-01''] @ [Null, Str ''2023-06-01'']
               # replicate 9 [Str ''Acme'', Str ''2023-06-01'']) =
     take 100 (replicate 120 [Str ''Acme'', Str ''2023-06-01'']) \<and>
   update (\<lambda>s. if s = ''2023-06-01'' then Fin 1685577600000 else NaN) (\<lambda>u. False) 0 1717200000000
     \<lparr>layout = ''plain'', PreviousYear = 2, FutureYear = 1\<rparr>
     \<lparr>columns = [\<lparr>roles = [''Company'']\<rparr>, \<lparr>roles = [''Date'']\<rparr>],
      rows = replicate 120 [Str ''Acme'', Str ''2023-06-01'']\<rparr> =
   Inr \<lparr>active = map (\<lambda>i. \<lparr>Company = ''Acme'', Type = [], Description = None,
                 Date = Some (Valid_Date 1685577600000), DocumentLink = None,
                 HeaderImage = None, FooterImage = None, selectionId = i\<rparr>) [0..<100],
        axisDomain = (Valid_Date 1640995200000, Valid_Date 1735689600000),
        bannerImage = No_Image, tickMode = Yearly\<rparr>"
proof -
  let ?parse = "\<lambda>s. if s = ''2023-06-01'' then Fin 1685577600000 else NaN"
  let ?st = "\<lparr>layout = ''plain'', PreviousYear = 2, FutureYear = 1\<rparr>"
  let ?rows = "replicate 110 [Str ''Acme'', Str ''2023-06-01''] @ [Null, Str ''2023-06-01'']
               # replicate 9 [Str ''Acme'', Str ''2023-06-01'']"
  let ?tbl = "\<lparr>columns = [\<lparr>roles = [''Company'']\<rparr>, \<lparr>roles = [''Date'']\<rparr>], rows = ?rows\<rparr>"
  have i: "110 < length (rows ?tbl)"
    by simp
  have row: "rows ?tbl ! 110 = [Null, Str ''2023-06-01'']"
    by (simp add: nth_append)
  have bad: "row_at (rows ?tbl ! 110)
               (companyIndex (scan_columns 0 (columns ?tbl) no_indices)) = Undefined \<or>
             row_at (rows ?tbl ! 110)
               (companyIndex (scan_columns 0 (columns ?tbl) no_indices)) = Null"
    unfolding row by (simp add: scan_column_def hasOwnProperty_def no_indices_def row_at_def)
  have aborts: "update ?parse (\<lambda>u. False) 0 1717200000000 ?st ?tbl = Inl (TypeError ''toString'')"
    by (rule C7_row_beyond_cap_aborts [OF i bad])
  have same: "take 100 ?rows = take 100 (replicate 120 [Str ''Acme'', Str ''2023-06-01''])"
    by simp
  from aborts same update_120_rows show ?thesis
    by simp
qed

subsection \<open>Tick granularity\<close>

lemma floor_neg_half:
  fixes x :: real
  assumes "x + 1 / 2 \<notin> \<int>"
  shows "\<lfloor>- x + 1 / 2\<rfloor> = - \<lfloor>x + 1 / 2\<rfloor>"
proof -
  define n where "n = \<lfloor>x + 1 / 2\<rfloor>"
  have le: "of_int n \<le> x + 1 / 2" and lt: "x + 1 / 2 < of_int n + 1"
    unfolding n_def by linarith+
  have "of_int n \<noteq> x + 1 / 2"
    using assms by (metis Ints_of_int)
  with le have strict: "of_int n < x + 1 / 2" by simp
  have "\<lfloor>- x + 1 / 2\<rfloor> = - n"
    by (rule floor_unique) (use strict lt in simp_all)
  then show ?thesis by (simp add: n_def)
qed

lemma days_no_tie: "real_of_int D / 365.25 + 1 / 2 \<notin> \<int>"
proof
  assume "real_of_int D / 365.25 + 1 / 2 \<in> \<int>"
  then obtain n :: int where "real_of_int D / 365.25 + 1 / 2 = of_int n"
    by (auto elim: Ints_cases)
  then have "real_of_int (8 * D + 1461) = real_of_int (2922 * n)"
    by (simp add: field_simps)
  then have "8 * D + 1461 = 2922 * n"
    by (simp only: of_int_eq_iff)
  then have "even (8 * D + 1461)"
    by simp
  then show False by simp
qed

lemma round_days:
  "\<bar>Math_round (- (real_of_int D / 365.25))\<bar> = round (\<bar>real_of_int D\<bar> / 365.25)"
proof -
  define x where "x = real_of_int D / 365.25"
  have absx: "\<bar>real_of_int D\<bar> / 365.25 = \<bar>x\<bar>"
    unfolding x_def by simp
  have neg: "\<lfloor>- x + 1 / 2\<rfloor> = - \<lfloor>x + 1 / 2\<rfloor>"
    unfolding x_def by (rule floor_neg_half [OF days_no_tie])
  have goal: "\<bar>\<lfloor>- x + 1 / 2\<rfloor>\<bar> = \<lfloor>\<bar>x\<bar> + 1 / 2\<rfloor>"
  proof (cases "0 \<le> x")
    case True
    then have "0 \<le> \<lfloor>x + 1 / 2\<rfloor>"
      by (simp add: le_floor_iff)
    with True show ?thesis
      unfolding neg by simp
  next
    case False
    then have "0 \<le> \<lfloor>- x + 1 / 2\<rfloor>"
      by (simp add: le_floor_iff)
    with False show ?thesis
      by simp
  qed
  show ?thesis
    unfolding Math_round_def round_def absx x_def [symmetric] by (rule goal)
qed

lemma round_one_year: "D = 365 \<or> D = 366 \<Longrightarrow> round (\<bar>real_of_int D\<bar> / 365.25) = 1"
  by (auto simp: round_def floor_eq_iff)

lemma round_two_years: "730 \<le> D \<Longrightarrow> 2 \<le> round (\<bar>real_of_int D\<bar> / 365.25)"
  by (simp add: round_def le_floor_iff field_simps)

lemma new_Date_y_0_1_valid:
  assumes "new_Date_y_0_1 tza y = Valid_Date t"
  obtains yr where "t = TimeFromYear yr - tza" and "getFullYear tza (new_Date_y_0_1 tza y) = Fin yr"
proof (cases y)
  case (Fin v)
  let ?yr = "if 0 \<le> v \<and> v \<le> 99 then 1900 + v else v"
  from assms Fin have "t = TimeFromYear ?yr - tza"
    by (auto simp: Let_def split: if_splits)
  moreover from this assms have "getFullYear tza (new_Date_y_0_1 tza y) = Fin ?yr"
    by (simp add: YearFromTime_TimeFromYear)
  ultimately show ?thesis by (rule that)
qed (use assms in simp_all)

lemma diff_years_Jan1:
  "diff_years (Valid_Date (TimeFromYear a - tza)) (Valid_Date (TimeFromYear b - tza)) =
     Fin (round (\<bar>real_of_int (DayFromYear b - DayFromYear a)\<bar> / 365.25))"
proof -
  have "real_of_int (TimeFromYear a - tza - (TimeFromYear b - tza)) / 1000 / (60 * 60 * 24) / 365.25
      = - (real_of_int (DayFromYear b - DayFromYear a) / 365.25)"
    by (simp add: TimeFromYear_def msPerDay_def field_simps)
  then show ?thesis
    by (simp only: diff_years.simps round_days)
qed

lemma rounded_year_span_Jan1:
  "rounded_year_span (Valid_Date (TimeFromYear a - tza)) (Valid_Date (TimeFromYear b - tza)) =
     Fin (round (\<bar>real_of_int (DayFromYear b - DayFromYear a)\<bar> / 365.25))"
proof -
  have "TimeFromYear b - tza - (TimeFromYear a - tza) = msPerDay * (DayFromYear b - DayFromYear a)"
    by (simp add: TimeFromYear_def algebra_simps)
  then have "\<bar>real_of_int (TimeFromYear b - tza - (TimeFromYear a - tza))\<bar> / real_of_int msPerDay
      = \<bar>real_of_int (DayFromYear b - DayFromYear a)\<bar>"
    using msPerDay_pos by (simp only: of_int_mult abs_mult) simp
  then show ?thesis
    by (simp only: rounded_year_span.simps)
qed

lemma DayFromYear_two_years: "a + 2 \<le> b \<Longrightarrow> 730 \<le> DayFromYear b - DayFromYear a"
proof -
  assume "a + 2 \<le> b"
  then have "DayFromYear (a + 2) \<le> DayFromYear b"
    by (rule DayFromYear_mono)
  moreover have "DayFromYear (a + 2) = DayFromYear a + DaysInYear a + DaysInYear (a + 1)"
    using DayFromYear_succ [of a] DayFromYear_succ [of "a + 1"] by (simp add: add.assoc)
  ultimately show ?thesis
    using DaysInYear_bounds [of a] DaysInYear_bounds [of "a + 1"] by linarith
qed

lemma axis_ticks_resolved:
  "(axis_ticks (new_Date_y_0_1 tza y1) (new_Date_y_0_1 tza y2) = Monthly) =
     js_le (rounded_year_span (new_Date_y_0_1 tza y1) (new_Date_y_0_1 tza y2)) (Fin 1)"
proof (cases "new_Date_y_0_1 tza y1")
  case Invalid_Date
  then show ?thesis by (simp add: axis_ticks_def)
next
  case v1: (Valid_Date t1)
  show ?thesis
  proof (cases "new_Date_y_0_1 tza y2")
    case Invalid_Date
    then show ?thesis using v1 by (simp add: axis_ticks_def)
  next
    case v2: (Valid_Date t2)
    from v1 obtain a where a: "t1 = TimeFromYear a - tza"
      by (rule new_Date_y_0_1_valid)
    from v2 obtain b where b: "t2 = TimeFromYear b - tza"
      by (rule new_Date_y_0_1_valid)
    show ?thesis
      unfolding v1 v2 a b axis_ticks_def diff_years_Jan1 rounded_year_span_Jan1 by simp
  qed
qed

lemma axis_ticks_years:
  assumes "getFullYear tza (new_Date_y_0_1 tza y1) = Fin a"
    and "getFullYear tza (new_Date_y_0_1 tza y2) = Fin b"
  shows "b = a + 1 \<Longrightarrow> axis_ticks (new_Date_y_0_1 tza y1) (new_Date_y_0_1 tza y2) = Monthly"
    and "a + 2 \<le> b \<Longrightarrow> axis_ticks (new_Date_y_0_1 tza y1) (new_Date_y_0_1 tza y2) = Yearly"
proof -
  from assms(1) obtain t1 where v1: "new_Date_y_0_1 tza y1 = Valid_Date t1"
    by (cases "new_Date_y_0_1 tza y1") simp_all
  from assms(2) obtain t2 where v2: "new_Date_y_0_1 tza y2 = Valid_Date t2"
    by (cases "new_Date_y_0_1 tza y2") simp_all
  from v1 obtain a' where a': "t1 = TimeFromYear a' - tza"
    "getFullYear tza (new_Date_y_0_1 tza y1) = Fin a'"
    by (rule new_Date_y_0_1_valid)
  from v2 obtain b' where b': "t2 = TimeFromYear b' - tza"
    "getFullYear tza (new_Date_y_0_1 tza y2) = Fin b'"
    by (rule new_Date_y_0_1_valid)
  have ab: "a' = a" "b' = b"
    using assms a'(2) b'(2) by simp_all
  have d: "diff_years (new_Date_y_0_1 tza y1) (new_Date_y_0_1 tza y2) =
      Fin (round (\<bar>real_of_int (DayFromYear b - DayFromYear a)\<bar> / 365.25))"
    unfolding v1 v2 a'(1) b'(1) ab by (rule diff_years_Jan1)
  show "axis_ticks (new_Date_y_0_1 tza y1) (new_Date_y_0_1 tza y2) = Monthly" if "b = a + 1"
  proof -
    have "DayFromYear b - DayFromYear a = 365 \<or> DayFromYear b - DayFromYear a = 366"
      unfolding that DayFromYear_succ by (simp add: DaysInYear_def)
    from round_one_year [OF this] show ?thesis
      by (simp add: axis_ticks_def d)
  qed
  show "axis_ticks (new_Date_y_0_1 tza y1) (new_Date_y_0_1 tza y2) = Yearly" if "a + 2 \<le> b"
    using round_two_years [OF DayFromYear_two_years [OF that]]
    by (simp add: axis_ticks_def d)
qed


lemma tick_granularity_Jan1:
  "((axis_ticks (new_Date_y_0_1 tza y1) (new_Date_y_0_1 tza y2) = Monthly) =
      js_le (rounded_year_span (new_Date_y_0_1 tza y1) (new_Date_y_0_1 tza y2)) (Fin 1)) \<and>
   ((axis_ticks (new_Date_y_0_1 tza y1) (new_Date_y_0_1 tza y2) = Yearly) =
      (\<not> js_le (rounded_year_span (new_Date_y_0_1 tza y1) (new_Date_y_0_1 tza y2)) (Fin 1))) \<and>
   (\<forall>a. getFullYear tza (new_Date_y_0_1 tza y1) = Fin a \<and>
        getFullYear tza (new_Date_y_0_1 tza y2) = Fin (a + 1)
      \<longrightarrow> axis_ticks (new_Date_y_0_1 tza y1) (new_Date_y_0_1 tza y2) = Monthly) \<and>
   (\<forall>a b. getFullYear tza (new_Date_y_0_1 tza y1) = Fin a \<and>
          getFullYear tza (new_Date_y_0_1 tza y2) = Fin b \<and> a + 2 \<le> b
      \<longrightarrow> axis_ticks (new_Date_y_0_1 tza y1) (new_Date_y_0_1 tza y2) = Yearly)"
proof -
  note iff = axis_ticks_resolved [of tza y1 y2]
  have yearly: "(axis_ticks (new_Date_y_0_1 tza y1) (new_Date_y_0_1 tza y2) = Yearly) =
      (\<not> js_le (rounded_year_span (new_Date_y_0_1 tza y1) (new_Date_y_0_1 tza y2)) (Fin 1))"
    using iff by (cases "axis_ticks (new_Date_y_0_1 tza y1) (new_Date_y_0_1 tza y2)") simp_all
  from iff yearly axis_ticks_years [of tza y1 _ y2] show ?thesis
    by blast
qed

lemma resolved_domain_form:
  assumes "resolve_window tza now st timelineData = Inr (data, minDate, maxDate)"
  obtains y1 y2 where "minDate = new_Date_y_0_1 tza y1" and "maxDate = new_Date_y_0_1 tza y2"
proof (cases "timelineData = []")
  case True
  with assms have "(minDate, maxDate) = data_extent tza timelineData"
    by (simp add: resolve_window_def)
  then show ?thesis
    by (auto simp: data_extent_def Let_def intro: that)
next
  case False
  with assms obtain l mn mx where w: "window_filter tza now st timelineData = Inr (l, mn, mx)"
    and r: "(if 0 < length l then Inr (l, mn, mx)
             else Inr (timelineData, data_extent tza timelineData)) =
            (Inr (data, minDate, maxDate) :: error + _)"
    by (auto simp: resolve_window_def bind_def split: sum.splits)
  from w have mn: "mn = new_Date_y_0_1 tza (Fin (YearFromTime (now + tza) - PreviousYear st))"
    and mx: "mx = new_Date_y_0_1 tza (Fin (YearFromTime (now + tza) + FutureYear st))"
    by (auto simp del: new_Date_y_0_1.simps simp: window_filter_def Let_def bind_def
        split: sum.splits)
  show ?thesis
  proof (cases "0 < length l")
    case True
    with r have "minDate = mn" "maxDate = mx" by simp_all
    with mn mx show ?thesis by (simp only: that)
  next
    case False
    with r have "(minDate, maxDate) = data_extent tza timelineData" by auto
    then show ?thesis
      by (auto simp: data_extent_def Let_def intro: that)
  qed
qed

text \<open>
  C8. For every domain the update resolves, the axis has monthly ticks iff the absolute
  difference of the two dates in days, divided by 365.25 and rounded, is at most 1, and
  yearly ticks otherwise; a domain from the first of January of a year to that of the
  next year has monthly ticks, one that spans two or more years has yearly ticks. (Both
  ends of a resolved domain are midnights of a first of January, a whole number of days
  apart, so rounding the negative quotient, as \<open>diff_years\<close> does, never meets a tie.)
\<close>

theorem C8_tick_granularity:
  assumes "resolve_window tza now st timelineData = Inr (data, minDate, maxDate)"
  shows "((axis_ticks minDate maxDate = Monthly) =
            js_le (rounded_year_span minDate maxDate) (Fin 1)) \<and>
         ((axis_ticks minDate maxDate = Yearly) =
            (\<not> js_le (rounded_year_span minDate maxDate) (Fin 1))) \<and>
         (\<forall>a. getFullYear tza minDate = Fin a \<and> getFullYear tza maxDate = Fin (a + 1)
            \<longrightarrow> axis_ticks minDate maxDate = Monthly) \<and>
         (\<forall>a b. getFullYear tza minDate = Fin a \<and> getFullYear tza maxDate = Fin b \<and> a + 2 \<le> b
            \<longrightarrow> axis_ticks minDate maxDate = Yearly)"
proof -
  from assms obtain y1 y2 where "minDate = new_Date_y_0_1 tza y1" "maxDate = new_Date_y_0_1 tza y2"
    by (rule resolved_domain_form)
  then show ?thesis
    using tick_granularity_Jan1 [of tza y1 y2] by simp
qed

theorem C8_tick_granularity_witness:
  "resolve_window 0 1717200000000 \<lparr>layout = ''header'', PreviousYear = 2, FutureYear = 1\<rparr>
     [\<lparr>Company = ''B'', Type = ''Commercial'', Description = None,
        Date = Some (Valid_Date 1672963200000), DocumentLink = None, HeaderImage = None,
        FooterImage = None, selectionId = 0\<rparr>] =
   Inr ([\<lparr>Company = ''B'', Type = ''Commercial'', Description = None,
           Date = Some (Valid_Date 1672963200000), DocumentLink = None, HeaderImage = None,
           FooterImage = None, selectionId = 0\<rparr>],
        Valid_Date 1640995200000, Valid_Date 1735689600000) \<and>
   axis_ticks (Valid_Date 1640995200000) (Valid_Date 1735689600000) = Yearly \<and>
   rounded_year_span (Valid_Date 1640995200000) (Valid_Date 1735689600000) = Fin 3 \<and>
   getFullYear 0 (Valid_Date 1640995200000) = Fin 2022 \<and>
   getFullYear 0 (Valid_Date 1735689600000) = Fin 2025"
proof -
  have r: "resolve_window 0 1717200000000 \<lparr>layout = ''header'', PreviousYear = 2, FutureYear = 1\<rparr>
     [\<lparr>Company = ''B'', Type = ''Commercial'', Description = None,
        Date = Some (Valid_Date 1672963200000), DocumentLink = None, HeaderImage = None,
        FooterImage = None, selectionId = 0\<rparr>] =
   Inr ([\<lparr>Company = ''B'', Type = ''Commercial'', Description = None,
           Date = Some (Valid_Date 1672963200000), DocumentLink = None, HeaderImage = None,
           FooterImage = None, selectionId = 0\<rparr>],
        Valid_Date 1640995200000, Valid_Date 1735689600000)"
    by (simp add: resolve_window_def window_filter_def bind_def js_ge_def eval_dates)
  show ?thesis
    using r C8_tick_granularity [OF r]
    by (simp add: eval_dates round_def)
qed

subsection \<open>Tooltip\<close>

text \<open>
  C9. The tooltip of a \<open>Regulatory\<close> or \<open>Commercial\<close> record is the date as
  \<open>M/D/YYYY\<close>, the sanitized company and the sanitized description. For a
  \<open>Clinical Trials\<close> record the code does not put the sanitized description there but
  its numeric coercion, the text of \<open>+sanitizeHtml(d.Description)\<close>.
\<close>

theorem C9_tooltip_numeric_coercion:
  "tooltip_html sanitizeHtml numeric_text tza (d\<lparr>Type := ''Clinical Trials'', Date := Some dt\<rparr>) =
     Inr (''<div>'' @ Number_toString (js_plus (getMonth tza dt) 1) @ ''/''
            @ Number_toString (getDate tza dt) @ ''/''
            @ Number_toString (getFullYear tza dt) @ ''</div>''
          @ ''<div>'' @ sanitizeHtml (Some (Company d)) @ ''</div>''
          @ ''<div>'' @ numeric_text (sanitizeHtml (Description d)) @ ''</div>'') \<and>
   tooltip_html sanitizeHtml numeric_text tza (d\<lparr>Type := ''Regulatory'', Date := Some dt\<rparr>) =
     Inr (''<div>'' @ Number_toString (js_plus (getMonth tza dt) 1) @ ''/''
            @ Number_toString (getDate tza dt) @ ''/''
            @ Number_toString (getFullYear tza dt) @ ''</div>''
          @ ''<div>'' @ sanitizeHtml (Some (Company d)) @ ''</div>''
          @ ''<div>'' @ sanitizeHtml (Description d) @ ''</div>'') \<and>
   tooltip_html sanitizeHtml numeric_text tza (d\<lparr>Type := ''Commercial'', Date := Some dt\<rparr>) =
     Inr (''<div>'' @ Number_toString (js_plus (getMonth tza dt) 1) @ ''/''
            @ Number_toString (getDate tza dt) @ ''/''
            @ Number_toString (getFullYear tza dt) @ ''</div>''
          @ ''<div>'' @ sanitizeHtml (Some (Company d)) @ ''</div>''
          @ ''<div>'' @ sanitizeHtml (Description d) @ ''</div>'')"
  by (simp add: tooltip_html_def Let_def)

text \<open>
  At a description that is not a numeric literal the coercion gives \<open>NaN\<close>; the
  sanitizer is taken to return a text without markup unchanged.
\<close>

theorem C9_tooltip_numeric_coercion_witness:
  "tooltip_html (\<lambda>s. case s of None \<Rightarrow> [] | Some t \<Rightarrow> t) (\<lambda>s. ''NaN'') 0
     \<lparr>Company = ''Acme'', Type = ''Clinical Trials'', Description = Some ''Phase 3 started'',
      Date = Some (Valid_Date 1685577600000), DocumentLink = None, HeaderImage = None,
      FooterImage = None, selectionId = 0\<rparr> =
   Inr ''<div>6/1/2023</div><div>Acme</div><div>NaN</div>''"
  using C9_tooltip_numeric_coercion [where sanitizeHtml = "\<lambda>s. case s of None \<Rightarrow> [] | Some t \<Rightarrow> t"
      and numeric_text = "\<lambda>s. ''NaN''" and tza = 0 and d =
      "\<lparr>Company = ''Acme'', Type = ''Clinical Trials'', Description = Some ''Phase 3 started'',
        Date = Some (Valid_Date 1685577600000), DocumentLink = None, HeaderImage = None,
        FooterImage = None, selectionId = 0\<rparr>" and dt = "Valid_Date 1685577600000"]
  by (simp add: eval_dates MonthFromTime_def DateFromTime_def DayWithinYear_def InLeapYear_def
      DaysInYear_def digits.simps)

subsection \<open>Header and footer\<close>

lemma data_extent_empty: "data_extent tza [] = (Invalid_Date, Invalid_Date)"
  by (simp add: data_extent_def)

text \<open>
  C10. When the conversion gives no record and the layout is \<open>header\<close> or \<open>footer\<close>
  (in any letter case), the window stage still returns (an empty active set with an
  invalid domain) and the header/footer step raises the \<open>TypeError\<close> of reading the image
  of the undefined first record, which ends the update; with another layout the update
  returns an empty frame. For a non-empty sequence the image depends on the first record
  only: its \<open>src\<close> is that record's image when \<open>validDataUrl\<close> accepts it, else the empty
  string.
\<close>

theorem C10_header_footer:
  "(CONVERTER Date_parse tableView = Inr [] \<and>
    (toLowerCase (layout st) = ''header'' \<or> toLowerCase (layout st) = ''footer'')
      \<longrightarrow> resolve_window tza now st (take 100 []) = Inr ([], Invalid_Date, Invalid_Date) \<and>
          renderHeaderAndFooter validDataUrl st [] =
            Inl (TypeError (if toLowerCase (layout st) = ''header'' then ''HeaderImage''
                            else ''FooterImage'')) \<and>
          update Date_parse validDataUrl tza now st tableView =
            Inl (TypeError (if toLowerCase (layout st) = ''header'' then ''HeaderImage''
                            else ''FooterImage''))) \<and>
   (CONVERTER Date_parse tableView = Inr [] \<and>
    toLowerCase (layout st) \<noteq> ''header'' \<and> toLowerCase (layout st) \<noteq> ''footer''
      \<longrightarrow> update Date_parse validDataUrl tza now st tableView =
            Inr \<lparr>active = [], axisDomain = (Invalid_Date, Invalid_Date), bannerImage = No_Image,
                 tickMode = Yearly\<rparr>) \<and>
   renderHeaderAndFooter validDataUrl st (t # rest) =
     Inr (if toLowerCase (layout st) = ''header''
          then Header_Image (if validDataUrl (HeaderImage t) then HeaderImage t else Some [])
          else if toLowerCase (layout st) = ''footer''
          then Footer_Image (if validDataUrl (FooterImage t) then FooterImage t else Some [])
          else No_Image)"
  by (auto simp: update_def render_def resolve_window_def renderHeaderAndFooter_def bind_def
      data_extent_empty axis_ticks_def)

theorem C10_header_footer_witness:
  "update (\<lambda>s. NaN) (\<lambda>u. u = Some ''data:image/png;base64,AAAA'') 0 1717200000000
     \<lparr>layout = ''Header'', PreviousYear = 2, FutureYear = 1\<rparr>
     \<lparr>columns = [\<lparr>roles = [''Company'']\<rparr>], rows = []\<rparr> = Inl (TypeError ''HeaderImage'') \<and>
   renderHeaderAndFooter (\<lambda>u. u = Some ''data:image/png;base64,AAAA'')
     \<lparr>layout = ''Header'', PreviousYear = 2, FutureYear = 1\<rparr>
     [\<lparr>Company = ''Acme'', Type = ''Regulatory'', Description = None, Date = None,
       DocumentLink = None, HeaderImage = Some ''data:image/png;base64,AAAA'',
       FooterImage = None, selectionId = 0\<rparr>] =
   Inr (Header_Image (Some ''data:image/png;base64,AAAA''))"
  using C10_header_footer [where Date_parse = "\<lambda>s. NaN"
      and tableView = "\<lparr>columns = [\<lparr>roles = [''Company'']\<rparr>], rows = []\<rparr>"
      and st = "\<lparr>layout = ''Header'', PreviousYear = 2, FutureYear = 1\<rparr>"
      and tza = 0 and now = 1717200000000
      and validDataUrl = "\<lambda>u. u = Some ''data:image/png;base64,AAAA''"
      and rest = "[]" and t =
      "\<lparr>Company = ''Acme'', Type = ''Regulatory'', Description = None, Date = None,
        DocumentLink = None, HeaderImage = Some ''data:image/png;base64,AAAA'',
        FooterImage = None, selectionId = 0\<rparr>"]
  by (simp add: CONVERTER_def toLowerCase_def lower_char_def)

end
